theory Spec2Isabelle
  imports Complex_Main "HOL-Library.Monad_Syntax"
begin

section \<open>The generated workbook\<close>

text \<open>
  \<^verbatim>\<open>generate_model.py\<close> is a straight-line script: it fills five worksheets
  (Assumptions, Income Statement, Balance Sheet, Cash Flow Statement, Notes) cell by cell
  and saves the workbook at the very end.  Historical columns C-G receive literal numbers,
  forecast columns H-L receive formula text.

  A worksheet is modelled as the log of the cell writes, most recent first, so that a
  later write to the same cell wins, as it does in openpyxl.  Cell styling (fonts, fills,
  number formats, column widths, freeze panes), the two title rows and the unit column B
  of the statements carry no formula and are referenced by none; they are left out.  The
  scenario toggles, which also live in column B, are kept.
\<close>

datatype sheet = Assumptions | Income_Statement | Balance_Sheet | Cash_Flow_Statement | Notes

text \<open>
  Formula text is modelled by its syntax tree.  \<open>Loc c r\<close> is the same-sheet reference
  \<^verbatim>\<open>{cl}{row}\<close> (column number, then row, in the order of the A1 notation), \<open>Ext s c r\<close> the
  sheet-qualified reference \<^verbatim>\<open>'Sheet Name'!{cl}{row}\<close>.  The host's operator precedence is
  applied when the text is read: unary minus binds tighter than \<^verbatim>\<open>*\<close> and \<^verbatim>\<open>/\<close>, which bind
  tighter than \<^verbatim>\<open>+\<close> and \<^verbatim>\<open>-\<close>, and operators of equal precedence associate to the left.
  \<open>IfEq t s a b\<close> is \<^verbatim>\<open>IF(t="s",a,b)\<close> and \<open>Average (c1, r1) (c2, r2)\<close> is
  \<^verbatim>\<open>AVERAGE(c1r1:c2r2)\<close>.
\<close>

datatype expr =
    Num real
  | Loc nat nat
  | Ext sheet nat nat
  | Neg expr
  | Add expr expr
  | Sub expr expr
  | Mul expr expr
  | Div expr expr
  | IfEq expr string expr expr
  | Average "nat \<times> nat" "nat \<times> nat"

datatype content = Number real | Text string | Formula expr

type_synonym worksheet = "((nat \<times> nat) \<times> content) list"

text \<open>\<^verbatim>\<open>ws.cell(row=r, column=c, value=v)\<close> and reading a cell back.\<close>

definition set_cell :: "worksheet \<Rightarrow> nat \<Rightarrow> nat \<Rightarrow> content \<Rightarrow> worksheet" where
  "set_cell ws row column v = ((row, column), v) # ws"

definition cell_value :: "worksheet \<Rightarrow> nat \<Rightarrow> nat \<Rightarrow> content option" where
  "cell_value ws row column = map_of ws (row, column)"

text \<open>Python's \<^verbatim>\<open>enumerate\<close> and \<^verbatim>\<open>for x in xs\<close> over a body that may raise.\<close>

definition enumerate_list :: "'a list \<Rightarrow> (nat \<times> 'a) list" where
  "enumerate_list xs = zip [0..<length xs] xs"

fun for_each :: "'a list \<Rightarrow> ('a \<Rightarrow> 's \<Rightarrow> 's option) \<Rightarrow> 's \<Rightarrow> 's option" where
  "for_each [] body s = Some s"
| "for_each (x # xs) body s = Option.bind (body x s) (for_each xs body)"

subsection \<open>Column layout\<close>

definition LABEL_COL :: nat where "LABEL_COL = 1"
definition UNIT_COL :: nat where "UNIT_COL = 2"
definition HIST_START :: nat where "HIST_START = 3"
definition HIST_END :: nat where "HIST_END = 7"
definition FC_START :: nat where "FC_START = 8"
definition FC_END :: nat where "FC_END = 12"

subsection \<open>Sheet 1: assumptions and drivers\<close>

definition toggle_items :: "(nat \<times> string) list" where
  "toggle_items =
    [(5, ''Toll revenue growth method''),
     (6, ''Other revenue growth method''),
     (7, ''Opex % method''),
     (8, ''D&A % method''),
     (9, ''Cost of debt method''),
     (10, ''Tax rate method'')]"

definition write_toggles :: "worksheet \<Rightarrow> worksheet" where
  "write_toggles ws =
     fold (\<lambda>(trow, tlabel) ws.
             set_cell (set_cell ws trow LABEL_COL (Text tlabel)) trow UNIT_COL (Text ''Forecast''))
          toggle_items ws"

text \<open>
  \<^verbatim>\<open>_write_values\<close>: ten values into columns C-L, a percentage divided by 100.  Every call
  of the script passes a list of numbers, so the \<^verbatim>\<open>None\<close> test of the source never fires.
\<close>

definition write_values :: "worksheet \<Rightarrow> nat \<Rightarrow> real list \<Rightarrow> bool \<Rightarrow> worksheet" where
  "write_values ws row vals is_pct =
     fold (\<lambda>(i, v) ws. set_cell ws row (HIST_START + i) (Number (if is_pct then v / 100 else v)))
          (enumerate_list vals) ws"

text \<open>
  \<^verbatim>\<open>_write_active_row\<close>: historical columns refer to the input row; forecast columns hold
  \<^verbatim>\<open>=IF(toggle="3yr Avg",AVERAGE(E{input}:G{input}),{cl}{input})\<close>.  The toggle is passed as
  the column and row of the absolute reference (\<^verbatim>\<open>$B$5\<close> is column 2, row 5).
\<close>

definition write_active_row :: "worksheet \<Rightarrow> nat \<Rightarrow> nat \<Rightarrow> nat \<times> nat \<Rightarrow> worksheet" where
  "write_active_row ws active_row input_row toggle_cell =
     (let ws = fold (\<lambda>i ws. let col = HIST_START + i in
                        set_cell ws active_row col (Formula (Loc col input_row)))
                    [0..<5] ws;
          avg_start = HIST_END - 2;
          avg_end = HIST_END
      in fold (\<lambda>i ws. let col = FC_START + i in
                 set_cell ws active_row col
                   (Formula (IfEq (Loc (fst toggle_cell) (snd toggle_cell)) ''3yr Avg''
                                  (Average (avg_start, input_row) (avg_end, input_row))
                                  (Loc col input_row))))
              [0..<5] ws)"

text \<open>A labelled input row and a labelled active row, as the script writes them.\<close>

definition input_row :: "worksheet \<Rightarrow> nat \<Rightarrow> string \<Rightarrow> real list \<Rightarrow> bool \<Rightarrow> worksheet" where
  "input_row ws row label vals is_pct =
     write_values (set_cell ws row LABEL_COL (Text label)) row vals is_pct"

definition active_row :: "worksheet \<Rightarrow> nat \<Rightarrow> string \<Rightarrow> nat \<Rightarrow> nat \<times> nat \<Rightarrow> worksheet" where
  "active_row ws row label input toggle_cell =
     write_active_row (set_cell ws row LABEL_COL (Text label)) row input toggle_cell"

definition section_row :: "worksheet \<Rightarrow> nat \<Rightarrow> string \<Rightarrow> worksheet" where
  "section_row ws row label = set_cell ws row LABEL_COL (Text label)"

definition assumptions_rows_1 :: "worksheet \<Rightarrow> worksheet" where
  "assumptions_rows_1 ws0 =
    (let ws = section_row ws0 14 ''REVENUE DRIVERS'';
         ws = input_row ws 15 ''Toll revenue growth (input)''
                [-4.2, 15.1, 22.1, 8.7, 6.2, 5.5, 5.0, 4.5, 4.0, 3.8] True;
         ws = active_row ws 16 ''Toll revenue growth (active)'' 15 (2, 5);
         ws = input_row ws 17 ''Other revenue growth (input)''
                [2.0, -2.5, 6.8, -1.8, 10.4, 3.0, 3.0, 3.0, 3.0, 3.0] True;
         ws = active_row ws 18 ''Other revenue growth (active)'' 17 (2, 6);
         ws = section_row ws 20 ''OPERATING COST DRIVERS'';
         ws = input_row ws 21 ''Opex as % of revenue (input)''
                [35.2, 32.5, 31.5, 30.7, 30.8, 30.5, 30.0, 29.5, 29.0, 28.8] True;
         ws = active_row ws 22 ''Opex as % of revenue (active)'' 21 (2, 7);
         ws = input_row ws 23 ''Employee costs as % of revenue''
                [8.5, 8.0, 7.4, 7.3, 7.2, 7.2, 7.0, 6.9, 6.8, 6.7] True;
         ws = input_row ws 24 ''Employee costs share of total opex''
                [24, 25, 24, 24, 23, 25, 25, 25, 25, 25] True;
         ws = input_row ws 25 ''Road ops share of total opex''
                [34, 33, 33, 32, 31, 33, 33, 33, 33, 33] True;
         ws = section_row ws 27 ''DEPRECIATION & AMORTISATION'';
         ws = input_row ws 28 ''D&A as % of NCA (input)''
                [2.7, 2.7, 2.7, 2.7, 2.8, 2.8, 2.8, 2.8, 2.8, 2.8] True;
         ws = active_row ws 29 ''D&A as % of NCA (active)'' 28 (2, 8);
         ws = input_row ws 30 ''D&A allocation to PP&E''
                [40, 40, 40, 40, 40, 40, 40, 40, 40, 40] True;
         ws = input_row ws 31 ''D&A allocation to intangibles''
                [60, 60, 60, 60, 60, 60, 60, 60, 60, 60] True;
         ws = section_row ws 33 ''FINANCING ASSUMPTIONS'';
         ws = input_row ws 34 ''Average cost of debt (input)''
                [4.6, 4.0, 4.2, 4.5, 4.6, 4.7, 4.7, 4.8, 4.8, 4.8] True;
         ws = active_row ws 35 ''Average cost of debt (active)'' 34 (2, 9);
         ws = input_row ws 36 ''Effective tax rate (input)''
                [-1.5, 14.0, 14.3, 14.4, 15.0, 15.0, 15.0, 15.0, 15.0, 15.0] True;
         ws = active_row ws 37 ''Effective tax rate (active)'' 36 (2, 10);
         ws = input_row ws 38 ''Statutory tax rate''
                [30, 30, 30, 30, 30, 30, 30, 30, 30, 30] True;
         ws = input_row ws 39 ''Current borrowings as % of total debt''
                [6, 5.5, 5.5, 5, 5, 5, 5, 5, 5, 5] True;
         ws = input_row ws 40 ''DRP / dilution rate''
                [1, 1, 1, 1, 1, 1, 1, 1, 1, 1] True
     in ws)"

definition assumptions_rows_2 :: "worksheet \<Rightarrow> worksheet" where
  "assumptions_rows_2 ws0 =
    (let ws = section_row ws0 42 ''BALANCE SHEET DRIVERS'';
         ws = input_row ws 43 ''Capex (maintenance + growth)''
                [628, 1092, 1805, 1420, 1200, 1300, 1350, 1400, 1250, 1200] False;
         ws = input_row ws 44 ''Trade receivables days''
                [28, 26, 25, 24, 24, 24, 24, 24, 24, 24] False;
         ws = input_row ws 45 ''Trade payables days''
                [55, 52, 50, 48, 48, 48, 48, 48, 48, 48] False;
         ws = input_row ws 46 ''Other current assets growth rate''
                [3, 3, 3, 3, 3, 3, 3, 3, 3, 3] True;
         ws = input_row ws 47 ''JV investments growth rate''
                [-2, -2, -2, -2, -2, -2, -2, -2, -2, -2] True;
         ws = input_row ws 48 ''Other NCA growth rate''
                [2, 2, 2, 2, 2, 2, 2, 2, 2, 2] True;
         ws = input_row ws 49 ''Other current liabilities growth rate''
                [3, 3, 3, 3, 3, 3, 3, 3, 3, 3] True;
         ws = input_row ws 50 ''Other NCL growth rate''
                [2, 2, 2, 2, 2, 2, 2, 2, 2, 2] True;
         ws = section_row ws 52 ''CASH FLOW / CAPITAL STRUCTURE'';
         ws = input_row ws 53 ''Dividend per security (DPS)''
                [41.0, 53.0, 62.0, 64.5, 66.0, 68.0, 70.0, 72.0, 74.0, 76.0] False;
         ws = input_row ws 54 ''Securities on issue (approx)''
                [1932, 1948, 1964, 1978, 1990, 2000, 2010, 2020, 2025, 2030] False;
         ws = input_row ws 55 ''Net debt issuance / (repayment)''
                [1200, 2050, 2800, 600, 300, 400, 350, 300, 200, 100] False;
         ws = input_row ws 56 ''Other operating adj. growth rate''
                [2, 2, 2, 2, 2, 2, 2, 2, 2, 2] True;
         ws = input_row ws 57 ''Equity issuance rate (DRP)''
                [1, 1, 1, 1, 1, 1, 1, 1, 1, 1] True;
         ws = section_row ws 59 ''NOTES ASSUMPTIONS'';
         ws = input_row ws 60 ''Construction revenue growth''
                [3, 3, 3, 3, 3, 3, 3, 3, 3, 3] True;
         ws = input_row ws 61 ''Debt maturity 1-2yr as % of total''
                [5.3, 4.9, 4.8, 4.7, 4.2, 5, 5, 5, 5, 5] True;
         ws = input_row ws 62 ''Debt maturity 2-5yr as % of total''
                [25, 22, 22, 26, 26, 26, 26, 26, 26, 26] True;
         ws = input_row ws 63 ''Capitalised borrowing costs factor''
                [15, 15, 15, 15, 15, 15, 15, 15, 15, 15] True;
         ws = input_row ws 64 ''Forecast non-deductible amortisation''
                [190, 190, 190, 190, 190, 190, 190, 190, 190, 190] False;
         ws = input_row ws 65 ''Forecast tax concessions''
                [-40, -40, -40, -40, -40, -40, -40, -40, -40, -40] False;
         ws = input_row ws 66 ''Forecast other perm. differences''
                [8, 8, 8, 8, 8, 8, 8, 8, 8, 8] False;
         ws = input_row ws 67 ''Capital commitments multiple of capex''
                [1.2, 1.2, 1.2, 1.2, 1.2, 1.2, 1.2, 1.2, 1.2, 1.2] False;
         ws = input_row ws 68 ''Operating lease growth rate''
                [3, 3, 3, 3, 3, 3, 3, 3, 3, 3] True;
         ws = input_row ws 69 ''Forecast contingent liabilities''
                [170, 170, 170, 170, 170, 170, 170, 170, 170, 170] False
     in ws)"

definition FY_LABELS :: "string list" where
  "FY_LABELS = [''FY21'', ''FY22'', ''FY23'', ''FY24'', ''FY25'',
                ''FY26F'', ''FY27F'', ''FY28F'', ''FY29F'', ''FY30F'']"

text \<open>The fiscal-year header row of a sheet.\<close>

definition header_row :: "worksheet \<Rightarrow> nat \<Rightarrow> string \<Rightarrow> worksheet" where
  "header_row ws r title =
     fold (\<lambda>(i, fy) ws. set_cell ws r (HIST_START + i) (Text fy))
          (enumerate_list FY_LABELS) (set_cell ws r LABEL_COL (Text title))"

definition assumptions_sheet :: worksheet where
  "assumptions_sheet =
     assumptions_rows_2 (assumptions_rows_1
       (header_row (write_toggles (set_cell [] 4 LABEL_COL (Text ''SCENARIO TOGGLES'')))
          12 ''Assumption / Driver''))"

text \<open>The assumption row constants used by the other sheets.\<close>

definition AROW_TOLL_GR :: nat where "AROW_TOLL_GR = 16"
definition AROW_OTHER_GR :: nat where "AROW_OTHER_GR = 18"
definition AROW_OPEX_PCT :: nat where "AROW_OPEX_PCT = 22"
definition AROW_EMP_PCT :: nat where "AROW_EMP_PCT = 23"
definition AROW_EMP_SHARE :: nat where "AROW_EMP_SHARE = 24"
definition AROW_ROAD_SHARE :: nat where "AROW_ROAD_SHARE = 25"
definition AROW_DA_PCT :: nat where "AROW_DA_PCT = 29"
definition AROW_DA_PPE :: nat where "AROW_DA_PPE = 30"
definition AROW_DA_INTANG :: nat where "AROW_DA_INTANG = 31"
definition AROW_COD :: nat where "AROW_COD = 35"
definition AROW_TAX :: nat where "AROW_TAX = 37"
definition AROW_STAT_TAX :: nat where "AROW_STAT_TAX = 38"
definition AROW_CURR_BORROW_PCT :: nat where "AROW_CURR_BORROW_PCT = 39"
definition AROW_DRP_RATE :: nat where "AROW_DRP_RATE = 40"
definition AROW_CAPEX :: nat where "AROW_CAPEX = 43"
definition AROW_REC_DAYS :: nat where "AROW_REC_DAYS = 44"
definition AROW_PAY_DAYS :: nat where "AROW_PAY_DAYS = 45"
definition AROW_OCA_GR :: nat where "AROW_OCA_GR = 46"
definition AROW_JV_GR :: nat where "AROW_JV_GR = 47"
definition AROW_ONCA_GR :: nat where "AROW_ONCA_GR = 48"
definition AROW_OCL_GR :: nat where "AROW_OCL_GR = 49"
definition AROW_ONCL_GR :: nat where "AROW_ONCL_GR = 50"
definition AROW_DPS :: nat where "AROW_DPS = 53"
definition AROW_SHARES :: nat where "AROW_SHARES = 54"
definition AROW_NET_DEBT :: nat where "AROW_NET_DEBT = 55"
definition AROW_OTHER_OPS_GR :: nat where "AROW_OTHER_OPS_GR = 56"
definition AROW_EQUITY_ISS :: nat where "AROW_EQUITY_ISS = 57"
definition AROW_CONSTR_GR :: nat where "AROW_CONSTR_GR = 60"
definition AROW_MAT_1_2 :: nat where "AROW_MAT_1_2 = 61"
definition AROW_MAT_2_5 :: nat where "AROW_MAT_2_5 = 62"
definition AROW_CAP_BORR :: nat where "AROW_CAP_BORR = 63"
definition AROW_NON_DED :: nat where "AROW_NON_DED = 64"
definition AROW_TAX_CONC :: nat where "AROW_TAX_CONC = 65"
definition AROW_OTHER_PERM :: nat where "AROW_OTHER_PERM = 66"
definition AROW_CAP_COMMIT :: nat where "AROW_CAP_COMMIT = 67"
definition AROW_OP_LEASE_GR :: nat where "AROW_OP_LEASE_GR = 68"
definition AROW_CONTINGENT :: nat where "AROW_CONTINGENT = 69"

subsection \<open>Label-indexed row registries\<close>

text \<open>
  A statement is declared as an ordered list of line items: a label and, for a line with
  historical data, its five literal values (\<open>None\<close> for section headers, spacers and
  formula-only lines).  The unit and the two styling flags of the source tuples are left
  out.  The loop writes the label, records \<^verbatim>\<open>ROW[label] = r\<close> in a dictionary, writes the
  historical values and moves to the next row.
\<close>

type_synonym rows = "string \<rightharpoonup> nat"
type_synonym item = "string \<times> real list option"

definition write_hist :: "worksheet \<Rightarrow> nat \<Rightarrow> real list \<Rightarrow> worksheet" where
  "write_hist ws r hist =
     fold (\<lambda>(i, v) ws. set_cell ws r (HIST_START + i) (Number v)) (enumerate_list hist) ws"

definition declare_item :: "item \<Rightarrow> worksheet \<times> rows \<times> nat \<Rightarrow> worksheet \<times> rows \<times> nat" where
  "declare_item = (\<lambda>(label, hist) (ws, ROW, r).
     let ws = set_cell ws r LABEL_COL (Text label);
         ROW = ROW(label \<mapsto> r);
         ws = (case hist of None \<Rightarrow> ws | Some vs \<Rightarrow> write_hist ws r vs)
     in (ws, ROW, r + 1))"

definition declare_items :: "worksheet \<Rightarrow> nat \<Rightarrow> item list \<Rightarrow> worksheet \<times> rows \<times> nat" where
  "declare_items ws start items = fold declare_item items (ws, Map.empty, start)"

text \<open>The dictionary comprehension \<^verbatim>\<open>{lbl: 5 + i for i, lbl in enumerate(labels)}\<close>.\<close>

definition row_map :: "string list \<Rightarrow> rows" where
  "row_map labels = fold (\<lambda>(i, lbl) m. m(lbl \<mapsto> 5 + i)) (enumerate_list labels) Map.empty"

text \<open>\<^verbatim>\<open>assert a == b\<close>: the script stops with an AssertionError when the test fails.\<close>

definition assert_equal :: "nat \<Rightarrow> nat \<Rightarrow> unit option" where
  "assert_equal a b = (if a = b then Some () else None)"

subsection \<open>Sheet 2: income statement\<close>

definition hist_toll_rev :: "real list" where "hist_toll_rev = [2459, 2830, 3455, 3756, 3990]"
definition hist_other_rev :: "real list" where "hist_other_rev = [319, 311, 332, 326, 360]"
definition hist_total_rev :: "real list" where
  "hist_total_rev = map (\<lambda>(t, o'). t + o') (zip hist_toll_rev hist_other_rev)"

definition hist_employee :: "real list" where "hist_employee = [-236, -251, -280, -298, -313]"
definition hist_road_ops :: "real list" where "hist_road_ops = [-340, -333, -380, -395, -418]"
definition hist_corp_admin :: "real list" where "hist_corp_admin = [-401, -436, -535, -562, -608]"
definition hist_total_opex :: "real list" where
  "hist_total_opex =
     map (\<lambda>(e, ro, ca). e + ro + ca) (zip hist_employee (zip hist_road_ops hist_corp_admin))"

definition hist_ebitda :: "real list" where
  "hist_ebitda = map (\<lambda>(tr, ox). tr + ox) (zip hist_total_rev hist_total_opex)"
definition hist_da :: "real list" where "hist_da = [-856, -880, -905, -930, -958]"
definition hist_ebit :: "real list" where
  "hist_ebit = map (\<lambda>(eb, da). eb + da) (zip hist_ebitda hist_da)"

definition hist_net_finance :: "real list" where
  "hist_net_finance = [-907, -821, -963, -1093, -1150]"
definition hist_pbt :: "real list" where
  "hist_pbt = map (\<lambda>(eb, nf). eb + nf) (zip hist_ebit hist_net_finance)"
definition hist_tax :: "real list" where "hist_tax = [7, -141, -270, -249, -282]"
definition hist_npat :: "real list" where
  "hist_npat = map (\<lambda>(pb, tx). pb + tx) (zip hist_pbt hist_tax)"

definition IS_START :: nat where "IS_START = 5"

definition is_items :: "item list" where
  "is_items =
    [(''Revenue'', None),
     (''Toll revenue'', Some hist_toll_rev),
     (''Other revenue'', Some hist_other_rev),
     (''Total Revenue'', Some hist_total_rev),
     ([], None),
     (''Operating Expenses'', None),
     (''Employee costs'', Some hist_employee),
     (''Road operating costs'', Some hist_road_ops),
     (''Corporate & admin costs'', Some hist_corp_admin),
     (''Total Operating Expenses'', Some hist_total_opex),
     ([], None),
     (''EBITDA'', Some hist_ebitda),
     (''Depreciation & amortisation'', Some hist_da),
     (''EBIT'', Some hist_ebit),
     ([], None),
     (''Net finance costs'', Some hist_net_finance),
     (''Profit / (Loss) before tax'', Some hist_pbt),
     (''Income tax (expense) / benefit'', Some hist_tax),
     (''Net Profit / (Loss) After Tax'', Some hist_npat)]"

text \<open>
  Row positions of the balance sheet and of the cash flow statement, computed from label
  lists before those sheets exist (\<^verbatim>\<open>_bs_labels\<close>, \<^verbatim>\<open>_bs_row_map\<close>, \<^verbatim>\<open>_cf_labels\<close>,
  \<^verbatim>\<open>_cf_row_map\<close> in the source).  The empty label of a spacer row is written \<open>[]\<close>.
\<close>

definition bs_labels :: "string list" where
  "bs_labels =
    [''ASSETS'', ''Current Assets'', ''Cash & cash equivalents'',
     ''Trade & other receivables'', ''Other current assets'', ''Total Current Assets'',
     [], ''Non-Current Assets'', ''Property, plant & equipment'',
     ''Intangible assets (concessions)'', ''Investments in joint ventures'',
     ''Other non-current assets'', ''Total Non-Current Assets'', [],
     ''Total Assets'', [], ''LIABILITIES'', ''Current Liabilities'',
     ''Trade & other payables'', ''Current borrowings'', ''Other current liabilities'',
     ''Total Current Liabilities'', [], ''Non-Current Liabilities'',
     ''Non-current borrowings'', ''Other non-current liabilities'',
     ''Total Non-Current Liabilities'',
     ''Total Borrowings (current + non-current)'', [], ''Total Liabilities'',
     [], ''EQUITY'', ''Share capital'', ''Retained earnings / (losses)'',
     ''Reserves'', ''Total Equity'', [], ''Total Liabilities & Equity'',
     [], ''Balance Sheet Check (Assets - L&E)'']"

definition bs_row_map :: rows where "bs_row_map = row_map bs_labels"

definition cf_labels :: "string list" where
  "cf_labels =
    [''OPERATING ACTIVITIES'', ''Net profit / (loss) after tax'', ''Add back: D&A'',
     ''Changes in working capital'', ''Other operating adjustments'',
     ''Net Cash from Operating Activities'', [],
     ''INVESTING ACTIVITIES'', ''Capital expenditure'', ''Other investing activities'',
     ''Net Cash from Investing Activities'', [],
     ''FINANCING ACTIVITIES'', ''Proceeds from / (repayment of) borrowings'',
     ''Dividends / distributions paid'', ''Equity issuance (DRP & placements)'',
     ''Net Cash from Financing Activities'', [],
     ''Net increase / (decrease) in cash'', ''FX & other adjustments'',
     ''Opening cash balance'', ''Closing Cash Balance'']"

definition cf_row_map :: rows where "cf_row_map = row_map cf_labels"

text \<open>
  One pass of the forecast loop of the income statement, for \<^verbatim>\<open>fc_idx\<close> in \<^verbatim>\<open>range(5)\<close>.
  Every \<^verbatim>\<open>IS_ROW[...]\<close> is a dictionary lookup that raises KeyError on a missing label.
\<close>

definition is_forecast :: "rows \<Rightarrow> nat \<Rightarrow> nat \<Rightarrow> nat \<Rightarrow> worksheet \<Rightarrow> worksheet option" where
  "is_forecast IS_ROW BS_NCA_ROW BS_DEBT_ROW fc_idx ws0 = do {
     let col = FC_START + fc_idx;
     let prev = col - 1;
     row_tr \<leftarrow> IS_ROW ''Toll revenue'';
     let ws = set_cell ws0 row_tr col
       (Formula (Mul (Loc prev row_tr) (Add (Num 1) (Ext Assumptions col AROW_TOLL_GR))));
     row_or \<leftarrow> IS_ROW ''Other revenue'';
     let ws = set_cell ws row_or col
       (Formula (Mul (Loc prev row_or) (Add (Num 1) (Ext Assumptions col AROW_OTHER_GR))));
     row_trev \<leftarrow> IS_ROW ''Total Revenue'';
     let ws = set_cell ws row_trev col (Formula (Add (Loc col row_tr) (Loc col row_or)));
     row_emp \<leftarrow> IS_ROW ''Employee costs'';
     row_road \<leftarrow> IS_ROW ''Road operating costs'';
     row_corp \<leftarrow> IS_ROW ''Corporate & admin costs'';
     row_topex \<leftarrow> IS_ROW ''Total Operating Expenses'';
     let ws = set_cell ws row_emp col
       (Formula (Mul (Mul (Neg (Loc col row_trev)) (Ext Assumptions col AROW_OPEX_PCT))
                     (Ext Assumptions col AROW_EMP_SHARE)));
     let ws = set_cell ws row_road col
       (Formula (Mul (Mul (Neg (Loc col row_trev)) (Ext Assumptions col AROW_OPEX_PCT))
                     (Ext Assumptions col AROW_ROAD_SHARE)));
     let ws = set_cell ws row_corp col
       (Formula (Sub (Sub (Mul (Neg (Loc col row_trev)) (Ext Assumptions col AROW_OPEX_PCT))
                          (Loc col row_emp))
                     (Loc col row_road)));
     let ws = set_cell ws row_topex col
       (Formula (Add (Add (Loc col row_emp) (Loc col row_road)) (Loc col row_corp)));
     row_ebitda \<leftarrow> IS_ROW ''EBITDA'';
     let ws = set_cell ws row_ebitda col (Formula (Add (Loc col row_trev) (Loc col row_topex)));
     row_da \<leftarrow> IS_ROW ''Depreciation & amortisation'';
     let ws = set_cell ws row_da col
       (Formula (Mul (Neg (Ext Balance_Sheet prev BS_NCA_ROW)) (Ext Assumptions col AROW_DA_PCT)));
     row_ebit \<leftarrow> IS_ROW ''EBIT'';
     let ws = set_cell ws row_ebit col (Formula (Add (Loc col row_ebitda) (Loc col row_da)));
     row_nfc \<leftarrow> IS_ROW ''Net finance costs'';
     let ws = set_cell ws row_nfc col
       (Formula (Mul (Neg (Ext Balance_Sheet prev BS_DEBT_ROW)) (Ext Assumptions col AROW_COD)));
     row_pbt \<leftarrow> IS_ROW ''Profit / (Loss) before tax'';
     let ws = set_cell ws row_pbt col (Formula (Add (Loc col row_ebit) (Loc col row_nfc)));
     row_tax \<leftarrow> IS_ROW ''Income tax (expense) / benefit'';
     let ws = set_cell ws row_tax col
       (Formula (Mul (Neg (Loc col row_pbt)) (Ext Assumptions col AROW_TAX)));
     row_npat \<leftarrow> IS_ROW ''Net Profit / (Loss) After Tax'';
     let ws = set_cell ws row_npat col (Formula (Add (Loc col row_pbt) (Loc col row_tax)));
     Some ws
   }"

subsection \<open>Sheet 3: balance sheet\<close>

definition hist_cash :: "real list" where "hist_cash = [2548, 3145, 2780, 2350, 2520]"
definition hist_recv :: "real list" where "hist_recv = [213, 224, 260, 269, 286]"
definition hist_other_ca :: "real list" where "hist_other_ca = [195, 210, 225, 230, 240]"
definition hist_total_ca :: "real list" where
  "hist_total_ca = map (\<lambda>(c, rc, o'). c + rc + o') (zip hist_cash (zip hist_recv hist_other_ca))"

definition hist_ppe :: "real list" where "hist_ppe = [6125, 6850, 7900, 8100, 8050]"
definition hist_intangibles :: "real list" where
  "hist_intangibles = [22450, 23100, 24200, 24650, 24800]"
definition hist_invest_jv :: "real list" where "hist_invest_jv = [1820, 1750, 1680, 1620, 1580]"
definition hist_other_nca :: "real list" where "hist_other_nca = [1250, 1380, 1520, 1580, 1620]"
definition hist_total_nca :: "real list" where
  "hist_total_nca =
     map (\<lambda>(p, ig, j, o'). p + ig + j + o')
         (zip hist_ppe (zip hist_intangibles (zip hist_invest_jv hist_other_nca)))"

definition hist_total_assets :: "real list" where
  "hist_total_assets = map (\<lambda>(ca, nca). ca + nca) (zip hist_total_ca hist_total_nca)"

definition hist_payables :: "real list" where "hist_payables = [485, 510, 555, 530, 550]"
definition hist_current_debt :: "real list" where
  "hist_current_debt = [1250, 1400, 1600, 1300, 1200]"
definition hist_other_cl :: "real list" where "hist_other_cl = [580, 620, 680, 710, 740]"
definition hist_total_cl :: "real list" where
  "hist_total_cl =
     map (\<lambda>(p, d, o'). p + d + o') (zip hist_payables (zip hist_current_debt hist_other_cl))"

definition hist_nc_debt :: "real list" where
  "hist_nc_debt = [19580, 21230, 23430, 23730, 23830]"
definition hist_total_borrow :: "real list" where
  "hist_total_borrow = map (\<lambda>(cd, nd). cd + nd) (zip hist_current_debt hist_nc_debt)"
definition hist_other_ncl :: "real list" where "hist_other_ncl = [2350, 2480, 2620, 2700, 2780]"
definition hist_total_ncl :: "real list" where
  "hist_total_ncl = map (\<lambda>(d, o'). d + o') (zip hist_nc_debt hist_other_ncl)"

definition hist_total_liab :: "real list" where
  "hist_total_liab = map (\<lambda>(cl, ncl). cl + ncl) (zip hist_total_cl hist_total_ncl)"

definition hist_share_cap :: "real list" where
  "hist_share_cap = [13845, 14250, 14680, 15020, 15310]"
definition hist_reserves :: "real list" where "hist_reserves = [358, 380, 380, 400, 412]"

text \<open>Retained earnings is the balancing plug, so that Assets = L&E exactly.\<close>

definition hist_retained :: "real list" where
  "hist_retained =
     map (\<lambda>(ta, tl, sc, rs). ta - tl - sc - rs)
         (zip hist_total_assets (zip hist_total_liab (zip hist_share_cap hist_reserves)))"
definition hist_total_eq :: "real list" where
  "hist_total_eq =
     map (\<lambda>(s, re, rs). s + re + rs) (zip hist_share_cap (zip hist_retained hist_reserves))"

definition hist_total_le :: "real list" where
  "hist_total_le = map (\<lambda>(tl, te). tl + te) (zip hist_total_liab hist_total_eq)"

definition bs_items :: "item list" where
  "bs_items =
    [(''ASSETS'', None),
     (''Current Assets'', None),
     (''Cash & cash equivalents'', Some hist_cash),
     (''Trade & other receivables'', Some hist_recv),
     (''Other current assets'', Some hist_other_ca),
     (''Total Current Assets'', Some hist_total_ca),
     ([], None),
     (''Non-Current Assets'', None),
     (''Property, plant & equipment'', Some hist_ppe),
     (''Intangible assets (concessions)'', Some hist_intangibles),
     (''Investments in joint ventures'', Some hist_invest_jv),
     (''Other non-current assets'', Some hist_other_nca),
     (''Total Non-Current Assets'', Some hist_total_nca),
     ([], None),
     (''Total Assets'', Some hist_total_assets),
     ([], None),
     (''LIABILITIES'', None),
     (''Current Liabilities'', None),
     (''Trade & other payables'', Some hist_payables),
     (''Current borrowings'', Some hist_current_debt),
     (''Other current liabilities'', Some hist_other_cl),
     (''Total Current Liabilities'', Some hist_total_cl),
     ([], None),
     (''Non-Current Liabilities'', None),
     (''Non-current borrowings'', Some hist_nc_debt),
     (''Other non-current liabilities'', Some hist_other_ncl),
     (''Total Non-Current Liabilities'', Some hist_total_ncl),
     (''Total Borrowings (current + non-current)'', Some hist_total_borrow),
     ([], None),
     (''Total Liabilities'', Some hist_total_liab),
     ([], None),
     (''EQUITY'', None),
     (''Share capital'', Some hist_share_cap),
     (''Retained earnings / (losses)'', Some hist_retained),
     (''Reserves'', Some hist_reserves),
     (''Total Equity'', Some hist_total_eq),
     ([], None),
     (''Total Liabilities & Equity'', Some hist_total_le),
     ([], None),
     (''Balance Sheet Check (Assets - L&E)'', None)]"

text \<open>The row variables the balance sheet section looks up once, before its forecast loop.\<close>

record bs_rows =
  row_check :: nat
  row_cash :: nat
  row_recv :: nat
  row_oca :: nat
  row_tca :: nat
  row_ppe :: nat
  row_intang :: nat
  row_jv :: nat
  row_onca :: nat
  row_tnca :: nat
  row_ta :: nat
  row_pay :: nat
  row_cd :: nat
  row_ocl :: nat
  row_tcl :: nat
  row_ncd :: nat
  row_oncl :: nat
  row_tncl :: nat
  row_tb :: nat
  row_tl :: nat
  row_sc :: nat
  row_re :: nat
  row_rsv :: nat
  row_teq :: nat
  row_tle :: nat
  IS_ROW_NPAT :: nat
  IS_ROW_DA :: nat
  IS_ROW_TREV :: nat

definition bs_lookup_rows :: "rows \<Rightarrow> rows \<Rightarrow> nat \<Rightarrow> bs_rows option" where
  "bs_lookup_rows IS_ROW BS_ROW check = do {
     cash \<leftarrow> BS_ROW ''Cash & cash equivalents'';
     recv \<leftarrow> BS_ROW ''Trade & other receivables'';
     oca \<leftarrow> BS_ROW ''Other current assets'';
     tca \<leftarrow> BS_ROW ''Total Current Assets'';
     ppe \<leftarrow> BS_ROW ''Property, plant & equipment'';
     intang \<leftarrow> BS_ROW ''Intangible assets (concessions)'';
     jv \<leftarrow> BS_ROW ''Investments in joint ventures'';
     onca \<leftarrow> BS_ROW ''Other non-current assets'';
     tnca \<leftarrow> BS_ROW ''Total Non-Current Assets'';
     ta \<leftarrow> BS_ROW ''Total Assets'';
     pay \<leftarrow> BS_ROW ''Trade & other payables'';
     cd \<leftarrow> BS_ROW ''Current borrowings'';
     ocl \<leftarrow> BS_ROW ''Other current liabilities'';
     tcl \<leftarrow> BS_ROW ''Total Current Liabilities'';
     ncd \<leftarrow> BS_ROW ''Non-current borrowings'';
     oncl \<leftarrow> BS_ROW ''Other non-current liabilities'';
     tncl \<leftarrow> BS_ROW ''Total Non-Current Liabilities'';
     tb \<leftarrow> BS_ROW ''Total Borrowings (current + non-current)'';
     tl \<leftarrow> BS_ROW ''Total Liabilities'';
     sc \<leftarrow> BS_ROW ''Share capital'';
     re \<leftarrow> BS_ROW ''Retained earnings / (losses)'';
     rsv \<leftarrow> BS_ROW ''Reserves'';
     teq \<leftarrow> BS_ROW ''Total Equity'';
     tle \<leftarrow> BS_ROW ''Total Liabilities & Equity'';
     npat \<leftarrow> IS_ROW ''Net Profit / (Loss) After Tax'';
     da \<leftarrow> IS_ROW ''Depreciation & amortisation'';
     trev \<leftarrow> IS_ROW ''Total Revenue'';
     Some \<lparr>row_check = check, row_cash = cash, row_recv = recv, row_oca = oca, row_tca = tca,
           row_ppe = ppe, row_intang = intang, row_jv = jv, row_onca = onca, row_tnca = tnca,
           row_ta = ta, row_pay = pay, row_cd = cd, row_ocl = ocl, row_tcl = tcl,
           row_ncd = ncd, row_oncl = oncl, row_tncl = tncl, row_tb = tb, row_tl = tl,
           row_sc = sc, row_re = re, row_rsv = rsv, row_teq = teq, row_tle = tle,
           IS_ROW_NPAT = npat, IS_ROW_DA = da, IS_ROW_TREV = trev\<rparr>
   }"

text \<open>The check row of the historical columns, \<^verbatim>\<open>={cl}{row_ta}-{cl}{row_tle}\<close>.\<close>

definition bs_hist_check :: "rows \<Rightarrow> worksheet \<Rightarrow> (worksheet \<times> nat) option" where
  "bs_hist_check BS_ROW ws = do {
     ta \<leftarrow> BS_ROW ''Total Assets'';
     tle \<leftarrow> BS_ROW ''Total Liabilities & Equity'';
     check \<leftarrow> BS_ROW ''Balance Sheet Check (Assets - L&E)'';
     Some (fold (\<lambda>col ws. set_cell ws check col (Formula (Sub (Loc col ta) (Loc col tle))))
                [HIST_START..<HIST_END + 1] ws, check)
   }"

text \<open>One pass of the forecast loop of the balance sheet.\<close>

definition bs_forecast ::
  "rows \<Rightarrow> bs_rows \<Rightarrow> nat \<Rightarrow> nat \<Rightarrow> worksheet \<Rightarrow> worksheet option" where
  "bs_forecast IS_ROW R CF_CLOSE_CASH_ROW fc_idx ws0 = do {
     let col = FC_START + fc_idx;
     let prev = col - 1;
     let ws = set_cell ws0 (row_cash R) col
       (Formula (Ext Cash_Flow_Statement col CF_CLOSE_CASH_ROW));
     let ws = set_cell ws (row_recv R) col
       (Formula (Mul (Div (Ext Income_Statement col (IS_ROW_TREV R)) (Num 365))
                     (Ext Assumptions col AROW_REC_DAYS)));
     let ws = set_cell ws (row_oca R) col
       (Formula (Mul (Loc prev (row_oca R)) (Add (Num 1) (Ext Assumptions col AROW_OCA_GR))));
     let ws = set_cell ws (row_tca R) col
       (Formula (Add (Add (Loc col (row_cash R)) (Loc col (row_recv R))) (Loc col (row_oca R))));
     let ws = set_cell ws (row_ppe R) col
       (Formula (Add (Add (Loc prev (row_ppe R)) (Ext Assumptions col AROW_CAPEX))
                     (Mul (Ext Income_Statement col (IS_ROW_DA R))
                          (Ext Assumptions col AROW_DA_PPE))));
     let ws = set_cell ws (row_intang R) col
       (Formula (Add (Loc prev (row_intang R))
                     (Mul (Ext Income_Statement col (IS_ROW_DA R))
                          (Ext Assumptions col AROW_DA_INTANG))));
     let ws = set_cell ws (row_jv R) col
       (Formula (Mul (Loc prev (row_jv R)) (Add (Num 1) (Ext Assumptions col AROW_JV_GR))));
     let ws = set_cell ws (row_onca R) col
       (Formula (Mul (Loc prev (row_onca R)) (Add (Num 1) (Ext Assumptions col AROW_ONCA_GR))));
     let ws = set_cell ws (row_tnca R) col
       (Formula (Add (Add (Add (Loc col (row_ppe R)) (Loc col (row_intang R)))
                          (Loc col (row_jv R)))
                     (Loc col (row_onca R))));
     let ws = set_cell ws (row_ta R) col
       (Formula (Add (Loc col (row_tca R)) (Loc col (row_tnca R))));
     IS_ROW_TOPEX \<leftarrow> IS_ROW ''Total Operating Expenses'';
     let ws = set_cell ws (row_pay R) col
       (Formula (Mul (Div (Neg (Ext Income_Statement col IS_ROW_TOPEX)) (Num 365))
                     (Ext Assumptions col AROW_PAY_DAYS)));
     let ws = set_cell ws (row_cd R) col
       (Formula (Mul (Add (Loc prev (row_tb R)) (Ext Assumptions col AROW_NET_DEBT))
                     (Ext Assumptions col AROW_CURR_BORROW_PCT)));
     let ws = set_cell ws (row_ocl R) col
       (Formula (Mul (Loc prev (row_ocl R)) (Add (Num 1) (Ext Assumptions col AROW_OCL_GR))));
     let ws = set_cell ws (row_tcl R) col
       (Formula (Add (Add (Loc col (row_pay R)) (Loc col (row_cd R))) (Loc col (row_ocl R))));
     let ws = set_cell ws (row_ncd R) col
       (Formula (Sub (Add (Loc prev (row_tb R)) (Ext Assumptions col AROW_NET_DEBT))
                     (Loc col (row_cd R))));
     let ws = set_cell ws (row_oncl R) col
       (Formula (Mul (Loc prev (row_oncl R)) (Add (Num 1) (Ext Assumptions col AROW_ONCL_GR))));
     let ws = set_cell ws (row_tncl R) col
       (Formula (Add (Loc col (row_ncd R)) (Loc col (row_oncl R))));
     let ws = set_cell ws (row_tb R) col
       (Formula (Add (Loc col (row_cd R)) (Loc col (row_ncd R))));
     let ws = set_cell ws (row_tl R) col
       (Formula (Add (Loc col (row_tcl R)) (Loc col (row_tncl R))));
     let ws = set_cell ws (row_sc R) col
       (Formula (Mul (Loc prev (row_sc R)) (Add (Num 1) (Ext Assumptions col AROW_DRP_RATE))));
     let ws = set_cell ws (row_re R) col
       (Formula (Sub (Add (Loc prev (row_re R)) (Ext Income_Statement col (IS_ROW_NPAT R)))
                     (Div (Mul (Ext Assumptions col AROW_DPS) (Ext Assumptions col AROW_SHARES))
                          (Num 100))));
     let ws = set_cell ws (row_rsv R) col (Formula (Loc prev (row_rsv R)));
     let ws = set_cell ws (row_teq R) col
       (Formula (Add (Add (Loc col (row_sc R)) (Loc col (row_re R))) (Loc col (row_rsv R))));
     let ws = set_cell ws (row_tle R) col
       (Formula (Add (Loc col (row_tl R)) (Loc col (row_teq R))));
     let ws = set_cell ws (row_check R) col
       (Formula (Sub (Loc col (row_ta R)) (Loc col (row_tle R))));
     Some ws
   }"

subsection \<open>Sheet 4: cash flow statement\<close>

definition hist_cfo_npat :: "real list" where "hist_cfo_npat = hist_npat"
definition hist_cfo_da :: "real list" where "hist_cfo_da = map (\<lambda>x. - x) hist_da"
definition hist_wc_change :: "real list" where "hist_wc_change = [-45, 30, -60, 25, -15]"
definition hist_other_ops :: "real list" where "hist_other_ops = [120, 135, 150, 160, 170]"
definition hist_net_cfo :: "real list" where
  "hist_net_cfo =
     map (\<lambda>(np, da, wc, oth). np + da + wc + oth)
         (zip hist_cfo_npat (zip hist_cfo_da (zip hist_wc_change hist_other_ops)))"

definition hist_capex :: "real list" where "hist_capex = [-628, -1092, -1805, -1420, -1200]"
definition hist_other_inv :: "real list" where "hist_other_inv = [-150, -80, -120, -100, -90]"
definition hist_net_cfi :: "real list" where
  "hist_net_cfi = map (\<lambda>(cx, oi). cx + oi) (zip hist_capex hist_other_inv)"

definition hist_debt_proc :: "real list" where "hist_debt_proc = [1200, 2050, 2800, 600, 300]"
definition hist_div_paid :: "real list" where "hist_div_paid = [-792, -1032, -1218, -1276, -1313]"
definition hist_equity_iss :: "real list" where "hist_equity_iss = [405, 450, 430, 340, 290]"
definition hist_net_cff :: "real list" where
  "hist_net_cff =
     map (\<lambda>(dp, dv, eq). dp + dv + eq) (zip hist_debt_proc (zip hist_div_paid hist_equity_iss))"

definition hist_net_change :: "real list" where
  "hist_net_change =
     map (\<lambda>(o', i, f). o' + i + f) (zip hist_net_cfo (zip hist_net_cfi hist_net_cff))"

text \<open>
  Opening cash: 2285 for FY21, then the closing cash of the prior year, \<^verbatim>\<open>hist_cash[k]\<close>
  for \<^verbatim>\<open>k\<close> in \<^verbatim>\<open>range(4)\<close> (the list has five entries, so the index is in range).
\<close>

definition hist_open_cash :: "real list" where
  "hist_open_cash = fold (\<lambda>k xs. xs @ [hist_cash ! k]) [0..<4] [2285]"
definition hist_fx_other :: "real list" where
  "hist_fx_other =
     map (\<lambda>(c, oc, nc). c - oc - nc) (zip hist_cash (zip hist_open_cash hist_net_change))"

definition cf_items :: "item list" where
  "cf_items =
    [(''OPERATING ACTIVITIES'', None),
     (''Net profit / (loss) after tax'', Some hist_cfo_npat),
     (''Add back: D&A'', Some hist_cfo_da),
     (''Changes in working capital'', Some hist_wc_change),
     (''Other operating adjustments'', Some hist_other_ops),
     (''Net Cash from Operating Activities'', Some hist_net_cfo),
     ([], None),
     (''INVESTING ACTIVITIES'', None),
     (''Capital expenditure'', Some hist_capex),
     (''Other investing activities'', Some hist_other_inv),
     (''Net Cash from Investing Activities'', Some hist_net_cfi),
     ([], None),
     (''FINANCING ACTIVITIES'', None),
     (''Proceeds from / (repayment of) borrowings'', Some hist_debt_proc),
     (''Dividends / distributions paid'', Some hist_div_paid),
     (''Equity issuance (DRP & placements)'', Some hist_equity_iss),
     (''Net Cash from Financing Activities'', Some hist_net_cff),
     ([], None),
     (''Net increase / (decrease) in cash'', Some hist_net_change),
     (''FX & other adjustments'', Some hist_fx_other),
     (''Opening cash balance'', Some hist_open_cash),
     (''Closing Cash Balance'', Some hist_cash)]"

record cf_rows =
  cf_npat_row :: nat
  cf_da_row :: nat
  cf_wc_row :: nat
  cf_other_ops_row :: nat
  cf_net_ops_row :: nat
  cf_capex_row :: nat
  cf_other_inv_row :: nat
  cf_net_inv_row :: nat
  cf_debt_row :: nat
  cf_div_row :: nat
  cf_equity_row :: nat
  cf_net_fin_row :: nat
  cf_net_change_row :: nat
  cf_fx_row :: nat
  cf_open_row :: nat
  cf_close_row :: nat

definition cf_lookup_rows :: "rows \<Rightarrow> cf_rows option" where
  "cf_lookup_rows CF_ROW = do {
     npat \<leftarrow> CF_ROW ''Net profit / (loss) after tax'';
     da \<leftarrow> CF_ROW ''Add back: D&A'';
     wc \<leftarrow> CF_ROW ''Changes in working capital'';
     other_ops \<leftarrow> CF_ROW ''Other operating adjustments'';
     net_ops \<leftarrow> CF_ROW ''Net Cash from Operating Activities'';
     capex \<leftarrow> CF_ROW ''Capital expenditure'';
     other_inv \<leftarrow> CF_ROW ''Other investing activities'';
     net_inv \<leftarrow> CF_ROW ''Net Cash from Investing Activities'';
     debt \<leftarrow> CF_ROW ''Proceeds from / (repayment of) borrowings'';
     dividends \<leftarrow> CF_ROW ''Dividends / distributions paid'';
     equity \<leftarrow> CF_ROW ''Equity issuance (DRP & placements)'';
     net_fin \<leftarrow> CF_ROW ''Net Cash from Financing Activities'';
     net_change \<leftarrow> CF_ROW ''Net increase / (decrease) in cash'';
     fx \<leftarrow> CF_ROW ''FX & other adjustments'';
     open' \<leftarrow> CF_ROW ''Opening cash balance'';
     close \<leftarrow> CF_ROW ''Closing Cash Balance'';
     Some \<lparr>cf_npat_row = npat, cf_da_row = da, cf_wc_row = wc, cf_other_ops_row = other_ops,
           cf_net_ops_row = net_ops, cf_capex_row = capex, cf_other_inv_row = other_inv,
           cf_net_inv_row = net_inv, cf_debt_row = debt, cf_div_row = dividends,
           cf_equity_row = equity, cf_net_fin_row = net_fin, cf_net_change_row = net_change,
           cf_fx_row = fx, cf_open_row = open', cf_close_row = close\<rparr>
   }"

text \<open>
  One pass of the forecast loop of the cash flow statement.  It uses the row variables of
  the balance sheet section (\<^verbatim>\<open>row_recv\<close>, \<^verbatim>\<open>row_pay\<close>, \<^verbatim>\<open>row_sc\<close>, \<^verbatim>\<open>row_cash\<close>,
  \<^verbatim>\<open>IS_ROW_NPAT\<close>, \<^verbatim>\<open>IS_ROW_DA\<close>), which are still in scope, and performs no lookup.
\<close>

definition cf_forecast :: "bs_rows \<Rightarrow> cf_rows \<Rightarrow> nat \<Rightarrow> worksheet \<Rightarrow> worksheet" where
  "cf_forecast R C fc_idx ws0 =
    (let col = FC_START + fc_idx;
         prev = col - 1;
         ws = set_cell ws0 (cf_npat_row C) col
           (Formula (Ext Income_Statement col (IS_ROW_NPAT R)));
         ws = set_cell ws (cf_da_row C) col
           (Formula (Neg (Ext Income_Statement col (IS_ROW_DA R))));
         ws = set_cell ws (cf_wc_row C) col
           (Formula (Add (Neg (Sub (Ext Balance_Sheet col (row_recv R))
                                   (Ext Balance_Sheet prev (row_recv R))))
                         (Sub (Ext Balance_Sheet col (row_pay R))
                              (Ext Balance_Sheet prev (row_pay R)))));
         ws = set_cell ws (cf_other_ops_row C) col
           (Formula (Mul (Loc prev (cf_other_ops_row C))
                         (Add (Num 1) (Ext Assumptions col AROW_OTHER_OPS_GR))));
         ws = set_cell ws (cf_net_ops_row C) col
           (Formula (Add (Add (Add (Loc col (cf_npat_row C)) (Loc col (cf_da_row C)))
                              (Loc col (cf_wc_row C)))
                         (Loc col (cf_other_ops_row C))));
         ws = set_cell ws (cf_capex_row C) col (Formula (Neg (Ext Assumptions col AROW_CAPEX)));
         ws = set_cell ws (cf_other_inv_row C) col (Formula (Loc prev (cf_other_inv_row C)));
         ws = set_cell ws (cf_net_inv_row C) col
           (Formula (Add (Loc col (cf_capex_row C)) (Loc col (cf_other_inv_row C))));
         ws = set_cell ws (cf_debt_row C) col (Formula (Ext Assumptions col AROW_NET_DEBT));
         ws = set_cell ws (cf_div_row C) col
           (Formula (Div (Mul (Neg (Ext Assumptions col AROW_DPS))
                              (Ext Assumptions col AROW_SHARES))
                         (Num 100)));
         ws = set_cell ws (cf_equity_row C) col
           (Formula (Mul (Ext Balance_Sheet prev (row_sc R))
                         (Ext Assumptions col AROW_EQUITY_ISS)));
         ws = set_cell ws (cf_net_fin_row C) col
           (Formula (Add (Add (Loc col (cf_debt_row C)) (Loc col (cf_div_row C)))
                         (Loc col (cf_equity_row C))));
         ws = set_cell ws (cf_net_change_row C) col
           (Formula (Add (Add (Loc col (cf_net_ops_row C)) (Loc col (cf_net_inv_row C)))
                         (Loc col (cf_net_fin_row C))));
         ws = set_cell ws (cf_fx_row C) col (Number 0);
         ws = set_cell ws (cf_open_row C) col (Formula (Ext Balance_Sheet prev (row_cash R)));
         ws = set_cell ws (cf_close_row C) col
           (Formula (Add (Add (Loc col (cf_open_row C)) (Loc col (cf_net_change_row C)))
                         (Loc col (cf_fx_row C))))
     in ws)"

subsection \<open>Sheet 5: notes to the financial statements\<close>

definition hist_construction_rev :: "real list" where
  "hist_construction_rev = [180, 320, 540, 420, 350]"

definition hist_melb_rev :: "real list" where "hist_melb_rev = [820, 920, 1080, 1150, 1220]"
definition hist_melb_ebitda :: "real list" where "hist_melb_ebitda = [620, 710, 840, 900, 960]"
definition hist_syd_rev :: "real list" where "hist_syd_rev = [1050, 1220, 1520, 1680, 1800]"
definition hist_syd_ebitda :: "real list" where "hist_syd_ebitda = [750, 890, 1120, 1250, 1350]"
definition hist_bris_rev :: "real list" where "hist_bris_rev = [430, 480, 560, 600, 640]"
definition hist_bris_ebitda :: "real list" where "hist_bris_ebitda = [310, 350, 410, 440, 470]"
definition hist_na_rev :: "real list" where "hist_na_rev = [478, 521, 627, 652, 690]"
definition hist_na_ebitda :: "real list" where "hist_na_ebitda = [120, 150, 205, 230, 260]"

definition hist_intang_opening :: "real list" where
  "hist_intang_opening = [22100, 22630, 23310, 24460, 25340]"
definition hist_intang_additions :: "real list" where
  "hist_intang_additions = [530, 680, 1150, 880, 720]"

definition hist_maturity_1_2yr :: "real list" where
  "hist_maturity_1_2yr = [1100, 1250, 1400, 1150, 1050]"
definition hist_maturity_2_5yr :: "real list" where
  "hist_maturity_2_5yr = [5200, 5650, 6300, 6400, 6500]"

definition hist_cap_borrow_costs :: "real list" where
  "hist_cap_borrow_costs = [45, 78, 125, 95, 80]"

definition hist_non_ded_amort :: "real list" where
  "hist_non_ded_amort = [215, 210, 205, 195, 190]"
definition hist_tax_concessions :: "real list" where
  "hist_tax_concessions = [-50, -48, -45, -42, -40]"
definition hist_other_perm_diff :: "real list" where
  "hist_other_perm_diff = [25, 20, 15, 10, 8]"

definition hist_cap_commit :: "real list" where "hist_cap_commit = [2800, 3200, 2500, 1800, 1500]"
definition hist_op_lease_commit :: "real list" where
  "hist_op_lease_commit = [85, 90, 95, 100, 105]"
definition hist_contingent_liab :: "real list" where
  "hist_contingent_liab = [150, 150, 160, 160, 170]"

text \<open>
  The data field of a note item is \<^verbatim>\<open>None\<close>, a list of historical values, or a string
  that names the formula written later.  The declaration loop writes the data only when
  \<^verbatim>\<open>isinstance(data, list)\<close>.
\<close>

datatype note_data = No_Data | Series "real list" | Tag string

fun series_of :: "note_data \<Rightarrow> real list option" where
  "series_of (Series vs) = Some vs"
| "series_of _ = None"

definition notes_items :: "(string \<times> note_data) list" where
  "notes_items =
    [(''REVENUE BREAKDOWN'', No_Data),
     (''Toll revenue'', Tag ''link_is_toll''),
     (''Construction revenue'', Series hist_construction_rev),
     (''Other revenue'', Tag ''link_is_other''),
     (''Total Revenue'', Tag ''link_is_total_rev''),
     ([], No_Data),

     (''SEGMENT REPORTING'', No_Data),
     (''Melbourne (CityLink)'', No_Data),
     (''  Revenue'', Series hist_melb_rev),
     (''  EBITDA'', Series hist_melb_ebitda),
     (''Sydney'', No_Data),
     (''  Revenue'', Series hist_syd_rev),
     (''  EBITDA'', Series hist_syd_ebitda),
     (''Brisbane'', No_Data),
     (''  Revenue'', Series hist_bris_rev),
     (''  EBITDA'', Series hist_bris_ebitda),
     (''North America'', No_Data),
     (''  Revenue'', Series hist_na_rev),
     (''  EBITDA'', Series hist_na_ebitda),
     (''Total segment revenue'', Tag ''sum_segment_rev''),
     (''Total segment EBITDA'', Tag ''sum_segment_ebitda''),
     (''Reconciliation to IS EBITDA'', Tag ''link_is_ebitda''),
     ([], No_Data),

     (''INTANGIBLE ASSETS (CONCESSION RIGHTS)'', No_Data),
     (''Opening balance'', Series hist_intang_opening),
     (''Additions (capitalised construction)'', Series hist_intang_additions),
     (''Amortisation charge'', Tag ''link_is_da_60pct''),
     (''Closing balance'', Tag ''calc_intang_close''),
     (''Cross-check to BS'', Tag ''link_bs_intang''),
     ([], No_Data),

     (''BORROWINGS'', No_Data),
     (''Current borrowings'', Tag ''link_bs_current_debt''),
     (''Non-current borrowings'', Tag ''link_bs_nc_debt''),
     (''Total borrowings'', Tag ''link_bs_total_debt''),
     ([], No_Data),
     (''Maturity Profile'', No_Data),
     (''  Within 1 year'', Tag ''link_current_debt''),
     (''  1-2 years'', Series hist_maturity_1_2yr),
     (''  2-5 years'', Series hist_maturity_2_5yr),
     (''  Over 5 years'', Tag ''calc_over_5yr''),
     (''  Total (maturity check)'', Tag ''sum_maturity''),
     ([], No_Data),
     (''Borrowing Costs'', No_Data),
     (''  Interest expense'', Tag ''link_is_interest''),
     (''  Capitalised borrowing costs'', Series hist_cap_borrow_costs),
     (''  Effective interest rate'', Tag ''link_assum_cod''),
     ([], No_Data),

     (''INCOME TAX'', No_Data),
     (''Profit before tax'', Tag ''link_is_pbt''),
     (''Tax at statutory rate (30%)'', Tag ''calc_tax_30pct''),
     (''Tax effect adjustments:'', No_Data),
     (''  Non-deductible amortisation'', Series hist_non_ded_amort),
     (''  Tax concessions & offsets'', Series hist_tax_concessions),
     (''  Other permanent differences'', Series hist_other_perm_diff),
     (''Total tax adjustments'', Tag ''sum_tax_adj''),
     (''Income tax expense'', Tag ''link_is_tax''),
     (''Effective tax rate'', Tag ''calc_etr''),
     (''ETR per Assumptions'', Tag ''link_assum_tax''),
     ([], No_Data),

     (''DIVIDENDS / DISTRIBUTIONS'', No_Data),
     (''DPS (cents per security)'', Tag ''link_assum_dps''),
     (''Securities on issue (m)'', Tag ''link_assum_shares''),
     (''Total distributions paid'', Tag ''link_cf_div''),
     (''Payout ratio (% of NPAT)'', Tag ''calc_payout''),
     (''Franking credits'', Series [0, 0, 0, 0, 0]),
     ([], No_Data),

     (''COMMITMENTS & CONTINGENCIES'', No_Data),
     (''Capital commitments'', Series hist_cap_commit),
     (''Operating lease commitments'', Series hist_op_lease_commit),
     (''Contingent liabilities'', Series hist_contingent_liab)]"

text \<open>Note 1, revenue breakdown: one pass of the loop over all ten periods.\<close>

definition note_revenue :: "rows \<Rightarrow> rows \<Rightarrow> nat \<Rightarrow> worksheet \<Rightarrow> worksheet option" where
  "note_revenue IS_ROW NOTES_ROW col_idx ws0 = do {
     row_toll \<leftarrow> NOTES_ROW ''Toll revenue'';
     row_construction \<leftarrow> NOTES_ROW ''Construction revenue'';
     row_other_rev \<leftarrow> NOTES_ROW ''Other revenue'';
     row_total_rev_note \<leftarrow> NOTES_ROW ''Total Revenue'';
     let col = HIST_START + col_idx;
     let prev = col - 1;
     is_toll \<leftarrow> IS_ROW ''Toll revenue'';
     let ws = set_cell ws0 row_toll col (Formula (Ext Income_Statement col is_toll));
     let ws = (if col \<ge> FC_START
               then set_cell ws row_construction col
                      (Formula (Mul (Loc prev row_construction)
                                    (Add (Num 1) (Ext Assumptions col AROW_CONSTR_GR))))
               else ws);
     is_other \<leftarrow> IS_ROW ''Other revenue'';
     let ws = set_cell ws row_other_rev col (Formula (Ext Income_Statement col is_other));
     is_total \<leftarrow> IS_ROW ''Total Revenue'';
     let ws = set_cell ws row_total_rev_note col (Formula (Ext Income_Statement col is_total));
     Some ws
   }"

text \<open>
  Note 2, segment reporting, historical periods only.  The segment lines share the labels
  \<^verbatim>\<open>"  Revenue"\<close> and \<^verbatim>\<open>"  EBITDA"\<close>, so their rows are taken one and two rows below the
  segment's own label.
\<close>

definition note_segments :: "rows \<Rightarrow> rows \<Rightarrow> nat \<Rightarrow> worksheet \<Rightarrow> worksheet option" where
  "note_segments IS_ROW NOTES_ROW col_idx ws0 = do {
     melb \<leftarrow> NOTES_ROW ''Melbourne (CityLink)'';
     let row_melb_rev = melb + 1;
     let row_melb_ebitda = row_melb_rev + 1;
     syd \<leftarrow> NOTES_ROW ''Sydney'';
     let row_syd_rev = syd + 1;
     let row_syd_ebitda = row_syd_rev + 1;
     bris \<leftarrow> NOTES_ROW ''Brisbane'';
     let row_bris_rev = bris + 1;
     let row_bris_ebitda = row_bris_rev + 1;
     na \<leftarrow> NOTES_ROW ''North America'';
     let row_na_rev = na + 1;
     let row_na_ebitda = row_na_rev + 1;
     row_total_seg_rev \<leftarrow> NOTES_ROW ''Total segment revenue'';
     row_total_seg_ebitda \<leftarrow> NOTES_ROW ''Total segment EBITDA'';
     row_recon_ebitda \<leftarrow> NOTES_ROW ''Reconciliation to IS EBITDA'';
     let col = HIST_START + col_idx;
     let ws = set_cell ws0 row_total_seg_rev col
       (Formula (Add (Add (Add (Loc col row_melb_rev) (Loc col row_syd_rev))
                          (Loc col row_bris_rev))
                     (Loc col row_na_rev)));
     let ws = set_cell ws row_total_seg_ebitda col
       (Formula (Add (Add (Add (Loc col row_melb_ebitda) (Loc col row_syd_ebitda))
                          (Loc col row_bris_ebitda))
                     (Loc col row_na_ebitda)));
     is_ebitda \<leftarrow> IS_ROW ''EBITDA'';
     let ws = set_cell ws row_recon_ebitda col (Formula (Ext Income_Statement col is_ebitda));
     Some ws
   }"

text \<open>Note 3, intangible assets roll-forward.\<close>

definition note_intangibles ::
  "rows \<Rightarrow> rows \<Rightarrow> rows \<Rightarrow> nat \<Rightarrow> worksheet \<Rightarrow> worksheet option" where
  "note_intangibles IS_ROW BS_ROW NOTES_ROW col_idx ws0 = do {
     row_construction \<leftarrow> NOTES_ROW ''Construction revenue'';
     row_intang_open \<leftarrow> NOTES_ROW ''Opening balance'';
     row_intang_add \<leftarrow> NOTES_ROW ''Additions (capitalised construction)'';
     row_intang_amort \<leftarrow> NOTES_ROW ''Amortisation charge'';
     row_intang_close \<leftarrow> NOTES_ROW ''Closing balance'';
     row_intang_check \<leftarrow> NOTES_ROW ''Cross-check to BS'';
     let col = HIST_START + col_idx;
     let prev = col - 1;
     let ws = (if col > HIST_START
               then set_cell ws0 row_intang_open col (Formula (Loc prev row_intang_close))
               else ws0);
     let ws = (if col \<ge> FC_START
               then set_cell ws row_intang_add col (Formula (Loc col row_construction))
               else ws);
     is_da \<leftarrow> IS_ROW ''Depreciation & amortisation'';
     let ws = set_cell ws row_intang_amort col
       (Formula (Mul (Ext Income_Statement col is_da) (Ext Assumptions col AROW_DA_INTANG)));
     let ws = set_cell ws row_intang_close col
       (Formula (Add (Add (Loc col row_intang_open) (Loc col row_intang_add))
                     (Loc col row_intang_amort)));
     bs_intang \<leftarrow> BS_ROW ''Intangible assets (concessions)'';
     let ws = set_cell ws row_intang_check col (Formula (Ext Balance_Sheet col bs_intang));
     Some ws
   }"

text \<open>Note 4, borrowings and their maturity profile.\<close>

definition note_borrowings ::
  "rows \<Rightarrow> rows \<Rightarrow> rows \<Rightarrow> nat \<Rightarrow> worksheet \<Rightarrow> worksheet option" where
  "note_borrowings IS_ROW BS_ROW NOTES_ROW col_idx ws0 = do {
     row_curr_debt \<leftarrow> NOTES_ROW ''Current borrowings'';
     row_nc_debt \<leftarrow> NOTES_ROW ''Non-current borrowings'';
     row_total_debt \<leftarrow> NOTES_ROW ''Total borrowings'';
     row_mat_within_1 \<leftarrow> NOTES_ROW ''  Within 1 year'';
     row_mat_1_2 \<leftarrow> NOTES_ROW ''  1-2 years'';
     row_mat_2_5 \<leftarrow> NOTES_ROW ''  2-5 years'';
     row_mat_over_5 \<leftarrow> NOTES_ROW ''  Over 5 years'';
     row_mat_total \<leftarrow> NOTES_ROW ''  Total (maturity check)'';
     row_interest \<leftarrow> NOTES_ROW ''  Interest expense'';
     row_cap_costs \<leftarrow> NOTES_ROW ''  Capitalised borrowing costs'';
     row_eff_rate \<leftarrow> NOTES_ROW ''  Effective interest rate'';
     let col = HIST_START + col_idx;
     bs_cd \<leftarrow> BS_ROW ''Current borrowings'';
     let ws = set_cell ws0 row_curr_debt col (Formula (Ext Balance_Sheet col bs_cd));
     bs_ncd \<leftarrow> BS_ROW ''Non-current borrowings'';
     let ws = set_cell ws row_nc_debt col (Formula (Ext Balance_Sheet col bs_ncd));
     bs_tb \<leftarrow> BS_ROW ''Total Borrowings (current + non-current)'';
     let ws = set_cell ws row_total_debt col (Formula (Ext Balance_Sheet col bs_tb));
     let ws = set_cell ws row_mat_within_1 col (Formula (Loc col row_curr_debt));
     let ws = (if col \<ge> FC_START
               then set_cell ws row_mat_1_2 col
                      (Formula (Mul (Loc col row_total_debt) (Ext Assumptions col AROW_MAT_1_2)))
               else ws);
     let ws = (if col \<ge> FC_START
               then set_cell ws row_mat_2_5 col
                      (Formula (Mul (Loc col row_total_debt) (Ext Assumptions col AROW_MAT_2_5)))
               else ws);
     let ws = set_cell ws row_mat_over_5 col
       (Formula (Sub (Sub (Sub (Loc col row_total_debt) (Loc col row_mat_within_1))
                          (Loc col row_mat_1_2))
                     (Loc col row_mat_2_5)));
     let ws = set_cell ws row_mat_total col
       (Formula (Add (Add (Add (Loc col row_mat_within_1) (Loc col row_mat_1_2))
                          (Loc col row_mat_2_5))
                     (Loc col row_mat_over_5)));
     is_nfc \<leftarrow> IS_ROW ''Net finance costs'';
     let ws = set_cell ws row_interest col (Formula (Neg (Ext Income_Statement col is_nfc)));
     let ws = (if col \<ge> FC_START
               then set_cell ws row_cap_costs col
                      (Formula (Mul (Mul (Ext Assumptions col AROW_CAPEX)
                                         (Ext Assumptions col AROW_COD))
                                    (Ext Assumptions col AROW_CAP_BORR)))
               else ws);
     let ws = set_cell ws row_eff_rate col (Formula (Ext Assumptions col AROW_COD));
     Some ws
   }"

text \<open>Note 5, income tax.\<close>

definition note_tax :: "rows \<Rightarrow> rows \<Rightarrow> nat \<Rightarrow> worksheet \<Rightarrow> worksheet option" where
  "note_tax IS_ROW NOTES_ROW col_idx ws0 = do {
     row_pbt \<leftarrow> NOTES_ROW ''Profit before tax'';
     row_tax_30 \<leftarrow> NOTES_ROW ''Tax at statutory rate (30%)'';
     row_non_ded \<leftarrow> NOTES_ROW ''  Non-deductible amortisation'';
     row_tax_conc \<leftarrow> NOTES_ROW ''  Tax concessions & offsets'';
     row_other_perm \<leftarrow> NOTES_ROW ''  Other permanent differences'';
     row_total_adj \<leftarrow> NOTES_ROW ''Total tax adjustments'';
     row_tax_exp \<leftarrow> NOTES_ROW ''Income tax expense'';
     row_etr \<leftarrow> NOTES_ROW ''Effective tax rate'';
     row_etr_assum \<leftarrow> NOTES_ROW ''ETR per Assumptions'';
     let col = HIST_START + col_idx;
     is_pbt \<leftarrow> IS_ROW ''Profit / (Loss) before tax'';
     let ws = set_cell ws0 row_pbt col (Formula (Ext Income_Statement col is_pbt));
     let ws = set_cell ws row_tax_30 col
       (Formula (Mul (Loc col row_pbt) (Neg (Ext Assumptions col AROW_STAT_TAX))));
     let ws = (if col \<ge> FC_START
               then set_cell
                      (set_cell
                         (set_cell ws row_non_ded col (Formula (Ext Assumptions col AROW_NON_DED)))
                         row_tax_conc col (Formula (Ext Assumptions col AROW_TAX_CONC)))
                      row_other_perm col (Formula (Ext Assumptions col AROW_OTHER_PERM))
               else ws);
     let ws = set_cell ws row_total_adj col
       (Formula (Add (Add (Loc col row_non_ded) (Loc col row_tax_conc)) (Loc col row_other_perm)));
     is_tax \<leftarrow> IS_ROW ''Income tax (expense) / benefit'';
     let ws = set_cell ws row_tax_exp col (Formula (Ext Income_Statement col is_tax));
     let ws = set_cell ws row_etr col (Formula (Div (Loc col row_tax_exp) (Loc col row_pbt)));
     let ws = set_cell ws row_etr_assum col (Formula (Ext Assumptions col AROW_TAX));
     Some ws
   }"

text \<open>Note 6, dividends and distributions.\<close>

definition note_dividends ::
  "rows \<Rightarrow> rows \<Rightarrow> rows \<Rightarrow> nat \<Rightarrow> worksheet \<Rightarrow> worksheet option" where
  "note_dividends IS_ROW CF_ROW NOTES_ROW col_idx ws0 = do {
     row_dps \<leftarrow> NOTES_ROW ''DPS (cents per security)'';
     row_shares \<leftarrow> NOTES_ROW ''Securities on issue (m)'';
     row_dist_paid \<leftarrow> NOTES_ROW ''Total distributions paid'';
     row_payout \<leftarrow> NOTES_ROW ''Payout ratio (% of NPAT)'';
     row_franking \<leftarrow> NOTES_ROW ''Franking credits'';
     let col = HIST_START + col_idx;
     let ws = set_cell ws0 row_dps col (Formula (Ext Assumptions col AROW_DPS));
     let ws = set_cell ws row_shares col (Formula (Ext Assumptions col AROW_SHARES));
     cf_div \<leftarrow> CF_ROW ''Dividends / distributions paid'';
     let ws = set_cell ws row_dist_paid col (Formula (Ext Cash_Flow_Statement col cf_div));
     is_npat \<leftarrow> IS_ROW ''Net Profit / (Loss) After Tax'';
     let ws = set_cell ws row_payout col
       (Formula (Div (Neg (Loc col row_dist_paid)) (Ext Income_Statement col is_npat)));
     let ws = (if col \<ge> FC_START then set_cell ws row_franking col (Number 0) else ws);
     Some ws
   }"

text \<open>Note 7, commitments and contingencies.\<close>

definition note_commitments :: "rows \<Rightarrow> nat \<Rightarrow> worksheet \<Rightarrow> worksheet option" where
  "note_commitments NOTES_ROW col_idx ws0 = do {
     row_cap_commit \<leftarrow> NOTES_ROW ''Capital commitments'';
     row_op_lease \<leftarrow> NOTES_ROW ''Operating lease commitments'';
     row_contingent \<leftarrow> NOTES_ROW ''Contingent liabilities'';
     let col = HIST_START + col_idx;
     let prev = col - 1;
     let ws = (if col \<ge> FC_START
               then set_cell ws0 row_cap_commit col
                      (Formula (Mul (Ext Assumptions col AROW_CAPEX)
                                    (Ext Assumptions col AROW_CAP_COMMIT)))
               else ws0);
     let ws = (if col \<ge> FC_START
               then set_cell ws row_op_lease col
                      (Formula (Mul (Loc prev row_op_lease)
                                    (Add (Num 1) (Ext Assumptions col AROW_OP_LEASE_GR))))
               else ws);
     let ws = (if col \<ge> FC_START
               then set_cell ws row_contingent col (Formula (Ext Assumptions col AROW_CONTINGENT))
               else ws);
     Some ws
   }"

subsection \<open>The whole script\<close>

text \<open>
  The script keeps its sheets and its registries in module-level variables.  The four
  declaration loops cannot raise, so the declared sheets and the registries \<^verbatim>\<open>IS_ROW\<close>,
  \<^verbatim>\<open>BS_ROW\<close>, \<^verbatim>\<open>CF_ROW\<close> and \<^verbatim>\<open>NOTES_ROW\<close> are plain values.  Everything after them may
  raise (the KeyError of a lookup, the AssertionError of a row check), which ends the run
  before \<^verbatim>\<open>wb.save\<close>: no workbook is produced (\<open>None\<close>).
\<close>

type_synonym workbook = "sheet \<Rightarrow> worksheet"

definition is_declared :: "worksheet \<times> rows \<times> nat" where
  "is_declared = declare_items (header_row [] 4 ''Income Statement'') IS_START is_items"

definition IS_ROW :: rows where "IS_ROW = fst (snd is_declared)"

definition bs_declared :: "worksheet \<times> rows \<times> nat" where
  "bs_declared = declare_items (header_row [] 4 ''Balance Sheet'') 5 bs_items"

definition BS_ROW :: rows where "BS_ROW = fst (snd bs_declared)"

definition cf_declared :: "worksheet \<times> rows \<times> nat" where
  "cf_declared = declare_items (header_row [] 4 ''Cash Flow Statement'') 5 cf_items"

definition CF_ROW :: rows where "CF_ROW = fst (snd cf_declared)"

definition notes_declared :: "worksheet \<times> rows \<times> nat" where
  "notes_declared =
     declare_items (header_row [] 4 ''Notes'') 5
       (map (\<lambda>(label, data). (label, series_of data)) notes_items)"

definition NOTES_ROW :: rows where "NOTES_ROW = fst (snd notes_declared)"

text \<open>The forecast loop of the income statement, given the two pre-computed rows.\<close>

definition income_statement :: "nat \<Rightarrow> nat \<Rightarrow> worksheet option" where
  "income_statement BS_NCA_ROW BS_DEBT_ROW =
     for_each [0..<5] (is_forecast IS_ROW BS_NCA_ROW BS_DEBT_ROW) (fst is_declared)"

text \<open>
  The balance sheet after its declaration.  The two \<^verbatim>\<open>assert\<close> statements compare the rows
  assigned by the declaration loop with the rows that were pre-computed for the income
  statement.  The section hands its row variables on to the cash flow section.
\<close>

definition balance_sheet :: "nat \<Rightarrow> nat \<Rightarrow> nat \<Rightarrow> (worksheet \<times> bs_rows) option" where
  "balance_sheet BS_NCA_ROW BS_DEBT_ROW CF_CLOSE_CASH_ROW = do {
     actual_bs_nca_row \<leftarrow> BS_ROW ''Total Non-Current Assets'';
     actual_bs_debt_row \<leftarrow> BS_ROW ''Total Borrowings (current + non-current)'';
     _ \<leftarrow> assert_equal actual_bs_nca_row BS_NCA_ROW;
     _ \<leftarrow> assert_equal actual_bs_debt_row BS_DEBT_ROW;
     (ws, check) \<leftarrow> bs_hist_check BS_ROW (fst bs_declared);
     R \<leftarrow> bs_lookup_rows IS_ROW BS_ROW check;
     ws \<leftarrow> for_each [0..<5] (bs_forecast IS_ROW R CF_CLOSE_CASH_ROW) ws;
     Some (ws, R)
   }"

text \<open>The cash flow statement after its declaration, with the third \<^verbatim>\<open>assert\<close>.\<close>

definition cash_flow_statement :: "bs_rows \<Rightarrow> nat \<Rightarrow> worksheet option" where
  "cash_flow_statement R CF_CLOSE_CASH_ROW = do {
     actual_cf_close_row \<leftarrow> CF_ROW ''Closing Cash Balance'';
     _ \<leftarrow> assert_equal actual_cf_close_row CF_CLOSE_CASH_ROW;
     C \<leftarrow> cf_lookup_rows CF_ROW;
     Some (fold (cf_forecast R C) [0..<5] (fst cf_declared))
   }"

text \<open>
  The notes after their declaration: seven loops over the periods.  The \<^verbatim>\<open>NOTES_ROW\<close>
  lookups that the script makes once before each loop are made at the start of each pass.
\<close>

definition notes_sheet :: "worksheet option" where
  "notes_sheet = do {
     ws \<leftarrow> for_each [0..<10] (note_revenue IS_ROW NOTES_ROW) (fst notes_declared);
     ws \<leftarrow> for_each [0..<5] (note_segments IS_ROW NOTES_ROW) ws;
     ws \<leftarrow> for_each [0..<10] (note_intangibles IS_ROW BS_ROW NOTES_ROW) ws;
     ws \<leftarrow> for_each [0..<10] (note_borrowings IS_ROW BS_ROW NOTES_ROW) ws;
     ws \<leftarrow> for_each [0..<10] (note_tax IS_ROW NOTES_ROW) ws;
     ws \<leftarrow> for_each [0..<10] (note_dividends IS_ROW CF_ROW NOTES_ROW) ws;
     for_each [0..<10] (note_commitments NOTES_ROW) ws
   }"

text \<open>The cross-sheet rows pre-computed from the label lists.\<close>

definition BS_NCA_ROW :: "nat option" where
  "BS_NCA_ROW = bs_row_map ''Total Non-Current Assets''"

definition BS_DEBT_ROW :: "nat option" where
  "BS_DEBT_ROW = bs_row_map ''Total Borrowings (current + non-current)''"

definition CF_CLOSE_CASH_ROW :: "nat option" where
  "CF_CLOSE_CASH_ROW = cf_row_map ''Closing Cash Balance''"

text \<open>
  The sections that follow the pre-computation, as a function of the three pre-computed
  rows: they are the only values that flow from the label lists into the sheets.
\<close>

definition generate_from :: "nat \<Rightarrow> nat \<Rightarrow> nat \<Rightarrow> workbook option" where
  "generate_from nca debt close = do {
     let ws_a = assumptions_sheet;
     ws_is \<leftarrow> income_statement nca debt;
     (ws_bs, R) \<leftarrow> balance_sheet nca debt close;
     ws_cf \<leftarrow> cash_flow_statement R close;
     ws_notes \<leftarrow> notes_sheet;
     Some (\<lambda>s. case s of
                  Assumptions \<Rightarrow> ws_a
                | Income_Statement \<Rightarrow> ws_is
                | Balance_Sheet \<Rightarrow> ws_bs
                | Cash_Flow_Statement \<Rightarrow> ws_cf
                | Notes \<Rightarrow> ws_notes)
   }"

definition generate_model :: "workbook option" where
  "generate_model = do {
     nca \<leftarrow> BS_NCA_ROW;
     debt \<leftarrow> BS_DEBT_ROW;
     close \<leftarrow> CF_CLOSE_CASH_ROW;
     generate_from nca debt close
   }"

text \<open>The workbook the script saves (without sheets, had the script raised).\<close>

definition model :: workbook where
  "model = (case generate_model of Some wb \<Rightarrow> wb | None \<Rightarrow> (\<lambda>s. []))"

section \<open>The host's evaluation of formulas\<close>

text \<open>
  The script emits formula text and never evaluates it; the values are those the host
  spreadsheet computes.  The host is modelled for the constructs the script emits, in exact
  real arithmetic (the host uses IEEE doubles): a value is a number, a text or blank;
  arithmetic reads a blank as 0 and fails on a text and on a division by zero; \<^verbatim>\<open>IF\<close>
  evaluates only the branch it selects; the comparison with the method token is taken as
  equality of texts; \<^verbatim>\<open>AVERAGE\<close> over a range averages the numbers in it and fails when
  there is none; a formula that yields a blank shows 0.  A cell address is the sheet, the
  column and the row.
\<close>

datatype val = N real | S string | Blank

type_synonym addr = "sheet \<times> nat \<times> nat"

fun num_of :: "val \<Rightarrow> real option" where
  "num_of (N x) = Some x"
| "num_of Blank = Some 0"
| "num_of (S t) = None"

fun numbers_in :: "val list \<Rightarrow> real list" where
  "numbers_in [] = []"
| "numbers_in (N x # vs) = x # numbers_in vs"
| "numbers_in (v # vs) = numbers_in vs"

definition range_cells :: "nat \<times> nat \<Rightarrow> nat \<times> nat \<Rightarrow> (nat \<times> nat) list" where
  "range_cells p q =
     concat (map (\<lambda>c. map (\<lambda>r. (c, r)) [snd p..<Suc (snd q)]) [fst p..<Suc (fst q)])"

fun eval_expr :: "(addr \<Rightarrow> val option) \<Rightarrow> sheet \<Rightarrow> expr \<Rightarrow> val option" where
  "eval_expr env s (Num x) = Some (N x)"
| "eval_expr env s (Loc c r) = env (s, c, r)"
| "eval_expr env s (Ext t c r) = env (t, c, r)"
| "eval_expr env s (Neg e) =
     do { v \<leftarrow> eval_expr env s e; x \<leftarrow> num_of v; Some (N (- x)) }"
| "eval_expr env s (Add e1 e2) =
     do { v \<leftarrow> eval_expr env s e1; w \<leftarrow> eval_expr env s e2;
          x \<leftarrow> num_of v; y \<leftarrow> num_of w; Some (N (x + y)) }"
| "eval_expr env s (Sub e1 e2) =
     do { v \<leftarrow> eval_expr env s e1; w \<leftarrow> eval_expr env s e2;
          x \<leftarrow> num_of v; y \<leftarrow> num_of w; Some (N (x - y)) }"
| "eval_expr env s (Mul e1 e2) =
     do { v \<leftarrow> eval_expr env s e1; w \<leftarrow> eval_expr env s e2;
          x \<leftarrow> num_of v; y \<leftarrow> num_of w; Some (N (x * y)) }"
| "eval_expr env s (Div e1 e2) =
     do { v \<leftarrow> eval_expr env s e1; w \<leftarrow> eval_expr env s e2;
          x \<leftarrow> num_of v; y \<leftarrow> num_of w;
          if y = 0 then None else Some (N (x / y)) }"
| "eval_expr env s (IfEq t str a b) =
     do { v \<leftarrow> eval_expr env s t;
          if v = S str then eval_expr env s a else eval_expr env s b }"
| "eval_expr env s (Average p q) =
     do { vs \<leftarrow> those (map (\<lambda>(c, r). env (s, c, r)) (range_cells p q));
          let xs = numbers_in vs;
          if xs = [] then None else Some (N (sum_list xs / real (length xs))) }"

fun shown :: "val \<Rightarrow> val" where
  "shown Blank = N 0"
| "shown v = v"

text \<open>What a cell holds decides its value, given the values of the cells it refers to.\<close>

definition cell_result :: "(addr \<Rightarrow> val option) \<Rightarrow> sheet \<Rightarrow> content option \<Rightarrow> val option" where
  "cell_result env s c =
     (case c of
        None \<Rightarrow> Some Blank
      | Some (Number x) \<Rightarrow> Some (N x)
      | Some (Text t) \<Rightarrow> Some (S t)
      | Some (Formula e) \<Rightarrow> map_option shown (eval_expr env s e))"

definition content_at :: "workbook \<Rightarrow> addr \<Rightarrow> content option" where
  "content_at wb = (\<lambda>(s, c, r). cell_value (wb s) r c)"

text \<open>
  Recalculation, bounded by the depth of the chain of references it may follow: \<open>None\<close>
  when the bound is exhausted (as on a circular reference) or on an error value.
\<close>

fun eval_cell :: "nat \<Rightarrow> workbook \<Rightarrow> addr \<Rightarrow> val option" where
  "eval_cell 0 wb a = None"
| "eval_cell (Suc n) wb a = cell_result (eval_cell n wb) (fst a) (content_at wb a)"

text \<open>
  A valuation \<open>\<rho>\<close> of the cells agrees with cell \<open>a\<close> of the workbook when \<open>\<rho> a\<close> is the
  value the cell's content yields from \<open>\<rho>\<close>.  A recalculated workbook is a valuation that
  agrees with every cell; the theorems below assume agreement only with the formula cells
  they are about, so that they hold whatever the inputs and the other cells are.
\<close>

definition agrees :: "workbook \<Rightarrow> (addr \<Rightarrow> val) \<Rightarrow> addr \<Rightarrow> bool" where
  "agrees wb \<rho> a = (cell_result (\<lambda>b. Some (\<rho> b)) (fst a) (content_at wb a) = Some (\<rho> a))"

text \<open>The numeric reading of a value, for stating results (0 for a blank, as the host reads it).\<close>

fun num :: "val \<Rightarrow> real" where
  "num (N x) = x"
| "num v = 0"

section \<open>The dependency graph\<close>

text \<open>
  Every cell a formula mentions: both branches of an \<^verbatim>\<open>IF\<close> and every cell of a range.
\<close>

fun refs :: "sheet \<Rightarrow> expr \<Rightarrow> addr list" where
  "refs s (Num x) = []"
| "refs s (Loc c r) = [(s, c, r)]"
| "refs s (Ext t c r) = [(t, c, r)]"
| "refs s (Neg e) = refs s e"
| "refs s (Add e1 e2) = refs s e1 @ refs s e2"
| "refs s (Sub e1 e2) = refs s e1 @ refs s e2"
| "refs s (Mul e1 e2) = refs s e1 @ refs s e2"
| "refs s (Div e1 e2) = refs s e1 @ refs s e2"
| "refs s (IfEq t str a b) = refs s t @ refs s a @ refs s b"
| "refs s (Average p q) = map (\<lambda>(c, r). (s, c, r)) (range_cells p q)"

text \<open>An edge leads from each formula cell to every cell its formula references.\<close>

definition dep_graph :: "workbook \<Rightarrow> (addr \<times> addr) set" where
  "dep_graph wb = {(a, b). \<exists>e. content_at wb a = Some (Formula e) \<and> b \<in> set (refs (fst a) e)}"

text \<open>
  The rank of a cell: its column, then a level within the column.  Within one period the
  assumptions come first (inputs, then active rows), then the income statement from top to
  bottom, the receivables and payables of the balance sheet, the cash flow statement from
  top to bottom, the rest of the balance sheet from top to bottom, and the notes.
\<close>

definition level :: "sheet \<Rightarrow> nat \<Rightarrow> nat" where
  "level s r =
     (case s of
        Assumptions \<Rightarrow> (if r \<in> {16, 18, 22, 29, 35, 37} then 1 else 0)
      | Income_Statement \<Rightarrow> 100 + r
      | Balance_Sheet \<Rightarrow> (if r = 8 \<or> r = 23 then 200 + r else 400 + r)
      | Cash_Flow_Statement \<Rightarrow> 300 + r
      | Notes \<Rightarrow> 500 + r)"

definition rank :: "addr \<Rightarrow> nat" where
  "rank = (\<lambda>(s, c, r). c * 1000 + level s r)"

section \<open>Properties of the building blocks\<close>

text \<open>
  \<open>blocks step n\<close> collects what \<open>n\<close> passes of a loop body write, each pass run on an
  empty sheet, the last pass first.
\<close>

definition blocks :: "(nat \<Rightarrow> worksheet \<Rightarrow> worksheet option) \<Rightarrow> nat \<Rightarrow> worksheet" where
  "blocks step n = concat (map (\<lambda>i. the (step i [])) (rev [0..<n]))"

text \<open>
  A reference from cell \<open>a\<close> to cell \<open>b\<close> is in order when \<open>b\<close> has a lower rank and lies
  on the Assumptions sheet, in the column of \<open>a\<close> or in the column before it; a sheet is in
  order when every reference of every formula written to it is.
\<close>

definition edge_ok :: "addr \<Rightarrow> addr \<Rightarrow> bool" where
  "edge_ok a b =
     (rank b < rank a \<and>
      (fst b = Assumptions \<or> fst (snd b) = fst (snd a) \<or> Suc (fst (snd b)) = fst (snd a)))"

fun write_ok :: "sheet \<Rightarrow> (nat \<times> nat) \<times> content \<Rightarrow> bool" where
  "write_ok s ((r, c), Formula e) = list_all (edge_ok (s, c, r)) (refs s e)"
| "write_ok s ((r, c), v) = True"

definition sheet_ok :: "sheet \<Rightarrow> worksheet \<Rightarrow> bool" where
  "sheet_ok s ws = list_all (write_ok s) ws"

text \<open>
  The row variables of the balance sheet section and of the cash flow section, as the
  registries resolve them (lemmas \<open>bs_lookup_rows_eq\<close> and \<open>cf_lookup_rows_eq\<close> below).
\<close>

definition bs_vars :: bs_rows where
  "bs_vars =
     \<lparr>row_check = 44, row_cash = 7, row_recv = 8, row_oca = 9, row_tca = 10,
      row_ppe = 13, row_intang = 14, row_jv = 15, row_onca = 16, row_tnca = 17,
      row_ta = 19, row_pay = 23, row_cd = 24, row_ocl = 25, row_tcl = 26,
      row_ncd = 29, row_oncl = 30, row_tncl = 31, row_tb = 32, row_tl = 34,
      row_sc = 37, row_re = 38, row_rsv = 39, row_teq = 40, row_tle = 42,
      IS_ROW_NPAT = 23, IS_ROW_DA = 17, IS_ROW_TREV = 8\<rparr>"

definition cf_vars :: cf_rows where
  "cf_vars =
     \<lparr>cf_npat_row = 6, cf_da_row = 7, cf_wc_row = 8, cf_other_ops_row = 9,
      cf_net_ops_row = 10, cf_capex_row = 13, cf_other_inv_row = 14,
      cf_net_inv_row = 15, cf_debt_row = 18, cf_div_row = 19,
      cf_equity_row = 20, cf_net_fin_row = 21, cf_net_change_row = 23,
      cf_fx_row = 24, cf_open_row = 25, cf_close_row = 26\<rparr>"

text \<open>A loop whose pass \<open>i\<close> writes only to column \<open>c0 + i\<close>.\<close>

definition column_loop :: "(nat \<Rightarrow> worksheet \<Rightarrow> worksheet option) \<Rightarrow> nat \<Rightarrow> nat \<Rightarrow> bool" where
  "column_loop step n c0 = (\<forall>i<n. \<forall>k \<in> set (the (step i [])). snd (fst k) = c0 + i)"

text \<open>
  A recalculation certificate: a list of cells with their values, each value being what the
  cell's content yields from the values of the cells listed after it.
\<close>

fun certified :: "workbook \<Rightarrow> (addr \<times> val) list \<Rightarrow> bool" where
  "certified wb [] = True"
| "certified wb ((a, v) # tbl) =
     (certified wb tbl \<and> cell_result (map_of tbl) (fst a) (content_at wb a) = Some v)"

text \<open>
  The values of the balance check of FY26F (column H) and of the cells it depends on under
  the toggles the script writes, each before the cells it refers to.
\<close>

definition fy26_values :: "(addr \<times> val) list" where
  "fy26_values =
    [((Balance_Sheet, 8, 44), N (68 / 5)),
     ((Balance_Sheet, 8, 42), N (45374996763 / 1168000)),
     ((Balance_Sheet, 8, 40), N (154191107 / 16000)),
     ((Balance_Sheet, 8, 39), N 412),
     ((Balance_Sheet, 7, 39), N 412),
     ((Balance_Sheet, 8, 38), N (- (99810493 / 16000))),
     ((Balance_Sheet, 7, 38), N (- 5726)),
     ((Balance_Sheet, 8, 37), N (154631 / 10)),
     ((Assumptions, 8, 40), N (1 / 100)),
     ((Balance_Sheet, 8, 34), N (533110093 / 18250)),
     ((Balance_Sheet, 8, 31), N (269941 / 10)),
     ((Balance_Sheet, 8, 30), N (14178 / 5)),
     ((Assumptions, 8, 50), N (1 / 50)),
     ((Balance_Sheet, 7, 30), N 2780),
     ((Balance_Sheet, 8, 29), N (48317 / 2)),
     ((Balance_Sheet, 8, 26), N (20233884 / 9125)),
     ((Balance_Sheet, 8, 25), N (3811 / 5)),
     ((Assumptions, 8, 49), N (3 / 100)),
     ((Balance_Sheet, 7, 25), N 740),
     ((Balance_Sheet, 8, 24), N (2543 / 2)),
     ((Assumptions, 8, 39), N (1 / 20)),
     ((Balance_Sheet, 8, 19), N (45390881563 / 1168000)),
     ((Balance_Sheet, 8, 17), N (181707 / 5)),
     ((Balance_Sheet, 8, 16), N (8262 / 5)),
     ((Assumptions, 8, 48), N (1 / 50)),
     ((Balance_Sheet, 7, 16), N 1620),
     ((Balance_Sheet, 8, 15), N (7742 / 5)),
     ((Assumptions, 8, 47), N (- (1 / 50))),
     ((Balance_Sheet, 7, 15), N 1580),
     ((Balance_Sheet, 8, 14), N (604859 / 25)),
     ((Assumptions, 8, 31), N (3 / 5)),
     ((Balance_Sheet, 7, 14), N 24800),
     ((Balance_Sheet, 8, 13), N (223656 / 25)),
     ((Assumptions, 8, 30), N (2 / 5)),
     ((Balance_Sheet, 7, 13), N 8050),
     ((Balance_Sheet, 8, 10), N (2944126363 / 1168000)),
     ((Balance_Sheet, 8, 9), N (1236 / 5)),
     ((Assumptions, 8, 46), N (3 / 100)),
     ((Balance_Sheet, 7, 9), N 240),
     ((Balance_Sheet, 8, 7), N (2303633563 / 1168000)),
     ((Cash_Flow_Statement, 8, 26), N (2303633563 / 1168000)),
     ((Cash_Flow_Statement, 8, 24), N 0),
     ((Cash_Flow_Statement, 8, 23), N (- (639726437 / 1168000))),
     ((Cash_Flow_Statement, 8, 21), N (- (8069 / 10))),
     ((Cash_Flow_Statement, 8, 20), N (1531 / 10)),
     ((Assumptions, 8, 57), N (1 / 100)),
     ((Balance_Sheet, 7, 37), N 15310),
     ((Cash_Flow_Statement, 8, 19), N (- 1360)),
     ((Assumptions, 8, 54), N 2000),
     ((Assumptions, 8, 53), N 68),
     ((Cash_Flow_Statement, 8, 18), N 400),
     ((Assumptions, 8, 55), N 400),
     ((Cash_Flow_Statement, 8, 15), N (- 1390)),
     ((Cash_Flow_Statement, 8, 14), N (- 90)),
     ((Cash_Flow_Statement, 7, 14), N (- 90)),
     ((Cash_Flow_Statement, 8, 13), N (- 1300)),
     ((Assumptions, 8, 43), N 1300),
     ((Cash_Flow_Statement, 8, 10), N (1926252763 / 1168000)),
     ((Cash_Flow_Statement, 8, 9), N (867 / 5)),
     ((Assumptions, 8, 56), N (1 / 50)),
     ((Cash_Flow_Statement, 7, 9), N 170),
     ((Cash_Flow_Statement, 8, 8), N (- (6961557 / 18250))),
     ((Balance_Sheet, 7, 23), N 550),
     ((Balance_Sheet, 8, 23), N (3352743 / 18250)),
     ((Assumptions, 8, 45), N 48),
     ((Balance_Sheet, 7, 8), N 286),
     ((Balance_Sheet, 8, 8), N (109926 / 365)),
     ((Assumptions, 8, 44), N 24),
     ((Cash_Flow_Statement, 8, 7), N (5047 / 5)),
     ((Cash_Flow_Statement, 8, 6), N (13565507 / 16000)),
     ((Income_Statement, 8, 23), N (13565507 / 16000)),
     ((Income_Statement, 8, 22), N (- (2393913 / 16000))),
     ((Assumptions, 8, 37), N (3 / 20)),
     ((Assumptions, 8, 36), N (3 / 20)),
     ((Assumptions, 2, 10), S ''Forecast''),
     ((Income_Statement, 8, 21), N (797971 / 800)),
     ((Income_Statement, 8, 20), N (- (117641 / 100))),
     ((Assumptions, 8, 35), N (47 / 1000)),
     ((Assumptions, 8, 34), N (47 / 1000)),
     ((Assumptions, 2, 9), S ''Forecast''),
     ((Balance_Sheet, 7, 32), N 25030),
     ((Income_Statement, 8, 18), N (1739099 / 800)),
     ((Income_Statement, 8, 17), N (- (5047 / 5))),
     ((Assumptions, 8, 29), N (7 / 250)),
     ((Assumptions, 8, 28), N (7 / 250)),
     ((Assumptions, 2, 8), S ''Forecast''),
     ((Balance_Sheet, 7, 17), N 36050),
     ((Income_Statement, 8, 16), N (2546619 / 800)),
     ((Income_Statement, 8, 14), N (- (1117581 / 800))),
     ((Income_Statement, 8, 13), N (- (23469201 / 40000))),
     ((Income_Statement, 8, 12), N (- (36880173 / 80000))),
     ((Assumptions, 8, 25), N (33 / 100)),
     ((Income_Statement, 8, 11), N (- (1117581 / 3200))),
     ((Assumptions, 8, 24), N (1 / 4)),
     ((Assumptions, 8, 22), N (61 / 200)),
     ((Assumptions, 8, 21), N (61 / 200)),
     ((Assumptions, 2, 7), S ''Forecast''),
     ((Income_Statement, 8, 8), N (18321 / 4)),
     ((Income_Statement, 8, 7), N (1854 / 5)),
     ((Assumptions, 8, 18), N (3 / 100)),
     ((Assumptions, 8, 17), N (3 / 100)),
     ((Assumptions, 2, 6), S ''Forecast''),
     ((Income_Statement, 7, 7), N 360),
     ((Income_Statement, 8, 6), N (84189 / 20)),
     ((Assumptions, 8, 16), N (11 / 200)),
     ((Assumptions, 8, 15), N (11 / 200)),
     ((Assumptions, 2, 5), S ''Forecast''),
     ((Income_Statement, 7, 6), N 3990),
     ((Cash_Flow_Statement, 8, 25), N 2520),
     ((Balance_Sheet, 7, 7), N 2520)]"

text \<open>
  The number a formula of plain arithmetic denotes under a valuation, and the formulas of
  plain arithmetic (no \<^verbatim>\<open>IF\<close>, no \<^verbatim>\<open>AVERAGE\<close>).
\<close>

fun num_expr :: "(addr \<Rightarrow> val) \<Rightarrow> sheet \<Rightarrow> expr \<Rightarrow> real" where
  "num_expr \<rho> s (Num x) = x"
| "num_expr \<rho> s (Loc c r) = num (\<rho> (s, c, r))"
| "num_expr \<rho> s (Ext t c r) = num (\<rho> (t, c, r))"
| "num_expr \<rho> s (Neg e) = - num_expr \<rho> s e"
| "num_expr \<rho> s (Add e1 e2) = num_expr \<rho> s e1 + num_expr \<rho> s e2"
| "num_expr \<rho> s (Sub e1 e2) = num_expr \<rho> s e1 - num_expr \<rho> s e2"
| "num_expr \<rho> s (Mul e1 e2) = num_expr \<rho> s e1 * num_expr \<rho> s e2"
| "num_expr \<rho> s (Div e1 e2) = num_expr \<rho> s e1 / num_expr \<rho> s e2"
| "num_expr \<rho> s (IfEq t str a b) = 0"
| "num_expr \<rho> s (Average p q) = 0"

fun arith :: "expr \<Rightarrow> bool" where
  "arith (Num x) = True"
| "arith (Loc c r) = True"
| "arith (Ext t c r) = True"
| "arith (Neg e) = arith e"
| "arith (Add e1 e2) = (arith e1 \<and> arith e2)"
| "arith (Sub e1 e2) = (arith e1 \<and> arith e2)"
| "arith (Mul e1 e2) = (arith e1 \<and> arith e2)"
| "arith (Div e1 e2) = (arith e1 \<and> arith e2)"
| "arith (IfEq t str a b) = False"
| "arith (Average p q) = False"

text \<open>The certificate of FY26F read as a valuation (blank outside the listed cells).\<close>

definition fy26_valuation :: "addr \<Rightarrow> val" where
  "fy26_valuation a = (case map_of fy26_values a of Some v \<Rightarrow> v | None \<Rightarrow> Blank)"

subsection \<open>Cells of a write log\<close>

lemma cell_value_Nil: "cell_value [] r c = None"
  by (simp add: cell_value_def)

lemma cell_value_set_cell:
  "cell_value (set_cell ws r c v) r' c' =
     (if r' = r \<and> c' = c then Some v else cell_value ws r' c')"
  by (simp add: cell_value_def set_cell_def)

lemma cell_value_append:
  "cell_value (xs @ ws) r c =
     (case cell_value xs r c of Some v \<Rightarrow> Some v | None \<Rightarrow> cell_value ws r c)"
  by (simp add: cell_value_def map_add_def split: option.splits)

lemma cell_value_mem: "cell_value ws r c = Some v \<Longrightarrow> ((r, c), v) \<in> set ws"
  by (simp add: cell_value_def map_of_SomeD)

lemma sheet_ok_append: "sheet_ok s (xs @ ys) = (sheet_ok s xs \<and> sheet_ok s ys)"
  by (simp add: sheet_ok_def)

lemma sheet_ok_set_cell: "sheet_ok s (set_cell ws r c v) = (write_ok s ((r, c), v) \<and> sheet_ok s ws)"
  by (simp add: sheet_ok_def set_cell_def)

lemma sheet_ok_Nil: "sheet_ok s []"
  by (simp add: sheet_ok_def)

subsection \<open>Loops that prepend a block per pass\<close>

lemma for_each_prepend:
  assumes "\<And>i ws. i \<in> set js \<Longrightarrow> step i ws = Some (the (step i []) @ ws)"
  shows "for_each js step ws = Some (concat (map (\<lambda>i. the (step i [])) (rev js)) @ ws)"
  using assms
proof (induction js arbitrary: ws)
  case Nil
  show ?case by simp
next
  case (Cons j js)
  have 1: "step j ws = Some (the (step j []) @ ws)"
    by (rule Cons.prems) simp
  have 2: "for_each js step (the (step j []) @ ws) =
      Some (concat (map (\<lambda>i. the (step i [])) (rev js)) @ the (step j []) @ ws)"
    by (rule Cons.IH, rule Cons.prems) simp
  show ?case
    by (simp only: for_each.simps 1 2 bind.bind_lunit rev.simps map_append concat_append
        list.map concat.simps append_Nil2 append_assoc)
qed

lemma for_each_blocks:
  assumes "\<And>i ws. i < n \<Longrightarrow> step i ws = Some (the (step i []) @ ws)"
  shows "for_each [0..<n] step ws = Some (blocks step n @ ws)"
  unfolding blocks_def
proof (rule for_each_prepend)
  fix i ws assume "i \<in> set [0..<n]"
  then have "i < n" by simp
  then show "step i ws = Some (the (step i []) @ ws)" by (rule assms)
qed

lemma fold_prepend:
  assumes "\<And>i ws. i \<in> set js \<Longrightarrow> step i ws = step i [] @ ws"
  shows "fold step js ws = concat (map (\<lambda>i. step i []) (rev js)) @ ws"
  using assms
proof (induction js arbitrary: ws)
  case Nil
  show ?case by simp
next
  case (Cons j js)
  have 1: "step j ws = step j [] @ ws"
    by (rule Cons.prems) simp
  have 2: "fold step js (step j [] @ ws) =
      concat (map (\<lambda>i. step i []) (rev js)) @ step j [] @ ws"
    by (rule Cons.IH, rule Cons.prems) simp
  show ?case
    by (simp only: fold_simps 1 2 rev.simps map_append concat_append
        list.map concat.simps append_Nil2 append_assoc)
qed

lemma fold_blocks:
  assumes "\<And>i ws. i < n \<Longrightarrow> step i ws = step i [] @ ws"
  shows "fold step [0..<n] ws = blocks (\<lambda>i ws. Some (step i ws)) n @ ws"
proof -
  have "fold step [0..<n] ws = concat (map (\<lambda>i. step i []) (rev [0..<n])) @ ws"
  proof (rule fold_prepend)
    fix i ws assume "i \<in> set [0..<n]"
    then have "i < n" by simp
    then show "step i ws = step i [] @ ws" by (rule assms)
  qed
  then show ?thesis by (simp add: blocks_def)
qed

text \<open>
  When pass \<open>i\<close> writes only to column \<open>c0 + i\<close>, a cell of that column is decided by that
  pass alone, or was there before the loop.
\<close>

lemma cell_value_concat_blocks:
  assumes "\<And>i r c v. i \<in> set js \<Longrightarrow> ((r, c), v) \<in> set (blk i) \<Longrightarrow> c = c0 + i"
  shows "cell_value (concat (map blk js)) r c =
     (if c0 \<le> c \<and> c - c0 \<in> set js then cell_value (blk (c - c0)) r c else None)"
  using assms
proof (induction js)
  case Nil
  then show ?case by (simp add: cell_value_def)
next
  case (Cons j js)
  have other: "cell_value (blk j) r c = None" if "c \<noteq> c0 + j"
  proof -
    have "(r, c) \<notin> fst ` set (blk j)" using Cons.prems(1)[of j] that by force
    then show ?thesis by (simp add: cell_value_def map_of_eq_None_iff)
  qed
  have IH: "cell_value (concat (map blk js)) r c =
     (if c0 \<le> c \<and> c - c0 \<in> set js then cell_value (blk (c - c0)) r c else None)"
    using Cons.IH Cons.prems by simp
  show ?case
  proof (cases "c = c0 + j")
    case True
    then show ?thesis using IH by (simp add: cell_value_append split: option.splits)
  next
    case False
    then have "c0 \<le> c \<Longrightarrow> c - c0 \<noteq> j" by auto
    then show ?thesis using IH other[OF False] by (auto simp add: cell_value_append)
  qed
qed

lemma cell_value_blocks:
  assumes "\<And>i r c v. i < n \<Longrightarrow> ((r, c), v) \<in> set (the (step i [])) \<Longrightarrow> c = c0 + i"
  shows "cell_value (blocks step n @ ws) r c =
     (if c0 \<le> c \<and> c < c0 + n
      then (case cell_value (the (step (c - c0) [])) r c of
              Some v \<Rightarrow> Some v | None \<Rightarrow> cell_value ws r c)
      else cell_value ws r c)"
proof -
  have "cell_value (blocks step n) r c =
     (if c0 \<le> c \<and> c - c0 \<in> set (rev [0..<n])
      then cell_value (the (step (c - c0) [])) r c else None)"
    unfolding blocks_def using assms by (intro cell_value_concat_blocks) simp
  then show ?thesis by (auto simp add: cell_value_append)
qed

lemma cell_value_column_loop:
  assumes "column_loop step n c0"
  shows "cell_value (blocks step n @ ws) r c =
     (if c0 \<le> c \<and> c < c0 + n
      then (case cell_value (the (step (c - c0) [])) r c of
              Some v \<Rightarrow> Some v | None \<Rightarrow> cell_value ws r c)
      else cell_value ws r c)"
proof (rule cell_value_blocks)
  fix i r c v assume "i < n" and "((r, c), v) \<in> set (the (step i []))"
  with assms show "c = c0 + i" unfolding column_loop_def by force
qed

lemma sheet_ok_concat:
  "(\<And>i. i \<in> set js \<Longrightarrow> sheet_ok s (blk i)) \<Longrightarrow> sheet_ok s (concat (map blk js))"
  by (induction js) (simp_all add: sheet_ok_append sheet_ok_Nil)

lemma sheet_ok_blocks:
  assumes "\<And>i. i < n \<Longrightarrow> sheet_ok s (the (step i []))"
  shows "sheet_ok s (blocks step n)"
  unfolding blocks_def
proof (rule sheet_ok_concat)
  fix i assume "i \<in> set (rev [0..<n])"
  then have "i < n" by simp
  then show "sheet_ok s (the (step i []))" by (rule assms)
qed

subsection \<open>Declarations write labels and numbers; the last declaration of a label wins\<close>

lemma enumerate_list_snoc: "enumerate_list (xs @ [x]) = enumerate_list xs @ [(length xs, x)]"
  by (simp add: enumerate_list_def)

lemma sheet_ok_numbers:
  "sheet_ok s (fold (\<lambda>(i, v) ws. set_cell ws r (c0 + i) (Number (f v))) ivs ws) = sheet_ok s ws"
  by (induction ivs arbitrary: ws) (simp_all add: sheet_ok_set_cell split_def)

lemma sheet_ok_texts:
  "sheet_ok s (fold (\<lambda>(i, v) ws. set_cell ws r (c0 + i) (Text v)) ivs ws) = sheet_ok s ws"
  by (induction ivs arbitrary: ws) (simp_all add: sheet_ok_set_cell split_def)

lemma sheet_ok_write_hist: "sheet_ok s (write_hist ws r hist) = sheet_ok s ws"
  unfolding write_hist_def by (rule sheet_ok_numbers[where f = "\<lambda>v. v"])

lemma sheet_ok_write_values: "sheet_ok s (write_values ws r vals is_pct) = sheet_ok s ws"
  unfolding write_values_def by (rule sheet_ok_numbers)

lemma sheet_ok_header_row: "sheet_ok s (header_row ws r title) = sheet_ok s ws"
  unfolding header_row_def by (simp add: sheet_ok_texts sheet_ok_set_cell)

lemma sheet_ok_declare_item:
  "sheet_ok s (fst (declare_item it (ws, M, r))) = sheet_ok s ws"
  by (cases it)
     (simp add: declare_item_def Let_def sheet_ok_write_hist sheet_ok_set_cell split: option.splits)

lemma sheet_ok_fold_declare:
  "sheet_ok s (fst (fold declare_item items st)) = sheet_ok s (fst st)"
proof (induction items arbitrary: st)
  case Nil
  show ?case by simp
next
  case (Cons it items)
  obtain ws M r where st: "st = (ws, M, r)" by (cases st)
  show ?case using Cons.IH[of "declare_item it st"] by (simp add: st sheet_ok_declare_item)
qed

lemma sheet_ok_declare_items:
  "sheet_ok s (fst (declare_items ws start items)) = sheet_ok s ws"
  by (simp add: declare_items_def sheet_ok_fold_declare)

subsection \<open>The registries of this program\<close>

lemmas layout = LABEL_COL_def UNIT_COL_def HIST_START_def HIST_END_def FC_START_def FC_END_def

lemmas arows = AROW_TOLL_GR_def AROW_OTHER_GR_def AROW_OPEX_PCT_def AROW_EMP_PCT_def
  AROW_EMP_SHARE_def AROW_ROAD_SHARE_def AROW_DA_PCT_def AROW_DA_PPE_def AROW_DA_INTANG_def
  AROW_COD_def AROW_TAX_def AROW_STAT_TAX_def AROW_CURR_BORROW_PCT_def AROW_DRP_RATE_def
  AROW_CAPEX_def AROW_REC_DAYS_def AROW_PAY_DAYS_def AROW_OCA_GR_def AROW_JV_GR_def
  AROW_ONCA_GR_def AROW_OCL_GR_def AROW_ONCL_GR_def AROW_DPS_def AROW_SHARES_def
  AROW_NET_DEBT_def AROW_OTHER_OPS_GR_def AROW_EQUITY_ISS_def AROW_CONSTR_GR_def
  AROW_MAT_1_2_def AROW_MAT_2_5_def AROW_CAP_BORR_def AROW_NON_DED_def AROW_TAX_CONC_def
  AROW_OTHER_PERM_def AROW_CAP_COMMIT_def AROW_OP_LEASE_GR_def AROW_CONTINGENT_def

lemma upt_lists:
  "[0..<5] = [0, 1, 2, 3, 4]"
  "[0..<10] = [0, 1, 2, 3, 4, 5, 6, 7, 8, 9]"
  "[3..<8] = [3, 4, 5, 6, 7]"
  by (simp_all add: upt_rec)

lemma is_rows_all:
  "map IS_ROW
    [''Toll revenue'', ''Other revenue'', ''Total Revenue'', ''Employee costs'',
     ''Road operating costs'', ''Corporate & admin costs'', ''Total Operating Expenses'',
     ''EBITDA'', ''Depreciation & amortisation'', ''EBIT'', ''Net finance costs'',
     ''Profit / (Loss) before tax'', ''Income tax (expense) / benefit'',
     ''Net Profit / (Loss) After Tax'']
   = map Some [6, 7, 8, 11, 12, 13, 14, 16, 17, 18, 20, 21, 22, 23]"
  by code_simp

lemma bs_rows_all:
  "map BS_ROW
    [''Cash & cash equivalents'', ''Trade & other receivables'', ''Other current assets'',
     ''Total Current Assets'', ''Property, plant & equipment'',
     ''Intangible assets (concessions)'', ''Investments in joint ventures'',
     ''Other non-current assets'', ''Total Non-Current Assets'', ''Total Assets'',
     ''Trade & other payables'', ''Current borrowings'', ''Other current liabilities'',
     ''Total Current Liabilities'', ''Non-current borrowings'',
     ''Other non-current liabilities'', ''Total Non-Current Liabilities'',
     ''Total Borrowings (current + non-current)'', ''Total Liabilities'', ''Share capital'',
     ''Retained earnings / (losses)'', ''Reserves'', ''Total Equity'',
     ''Total Liabilities & Equity'', ''Balance Sheet Check (Assets - L&E)'']
   = map Some [7, 8, 9, 10, 13, 14, 15, 16, 17, 19, 23, 24, 25, 26, 29, 30, 31, 32, 34, 37,
       38, 39, 40, 42, 44]"
  by code_simp

lemma cf_rows_all:
  "map CF_ROW
    [''Net profit / (loss) after tax'', ''Add back: D&A'', ''Changes in working capital'',
     ''Other operating adjustments'', ''Net Cash from Operating Activities'',
     ''Capital expenditure'', ''Other investing activities'',
     ''Net Cash from Investing Activities'', ''Proceeds from / (repayment of) borrowings'',
     ''Dividends / distributions paid'', ''Equity issuance (DRP & placements)'',
     ''Net Cash from Financing Activities'', ''Net increase / (decrease) in cash'',
     ''FX & other adjustments'', ''Opening cash balance'', ''Closing Cash Balance'']
   = map Some [6, 7, 8, 9, 10, 13, 14, 15, 18, 19, 20, 21, 23, 24, 25, 26]"
  by code_simp

lemma notes_rows_all:
  "map NOTES_ROW
    [''Toll revenue'', ''Construction revenue'', ''Other revenue'', ''Total Revenue'',
     ''Melbourne (CityLink)'', ''Sydney'', ''Brisbane'', ''North America'',
     ''Total segment revenue'', ''Total segment EBITDA'', ''Reconciliation to IS EBITDA'',
     ''Opening balance'', ''Additions (capitalised construction)'', ''Amortisation charge'',
     ''Closing balance'', ''Cross-check to BS'',
     ''Current borrowings'', ''Non-current borrowings'', ''Total borrowings'',
     ''  Within 1 year'', ''  1-2 years'', ''  2-5 years'', ''  Over 5 years'',
     ''  Total (maturity check)'', ''  Interest expense'', ''  Capitalised borrowing costs'',
     ''  Effective interest rate'',
     ''Profit before tax'', ''Tax at statutory rate (30%)'', ''  Non-deductible amortisation'',
     ''  Tax concessions & offsets'', ''  Other permanent differences'',
     ''Total tax adjustments'', ''Income tax expense'', ''Effective tax rate'',
     ''ETR per Assumptions'',
     ''DPS (cents per security)'', ''Securities on issue (m)'', ''Total distributions paid'',
     ''Payout ratio (% of NPAT)'', ''Franking credits'',
     ''Capital commitments'', ''Operating lease commitments'', ''Contingent liabilities'']
   = map Some [6, 7, 8, 9, 12, 15, 18, 21, 24, 25, 26, 29, 30, 31, 32, 33, 36, 37, 38,
       41, 42, 43, 44, 45, 48, 49, 50, 53, 54, 56, 57, 58, 59, 60, 61, 62, 65, 66, 67, 68, 69,
       72, 73, 74]"
  by code_simp

lemma precomputed_rows:
  "BS_NCA_ROW = Some 17" "BS_DEBT_ROW = Some 32" "CF_CLOSE_CASH_ROW = Some 26"
  by code_simp+

lemmas regs = is_rows_all[simplified] bs_rows_all[simplified] cf_rows_all[simplified]
  notes_rows_all[simplified]

lemma bs_lookup_rows_eq: "bs_lookup_rows IS_ROW BS_ROW 44 = Some bs_vars"
  by (simp add: bs_lookup_rows_def bs_vars_def regs)

lemma cf_lookup_rows_eq: "cf_lookup_rows CF_ROW = Some cf_vars"
  by (simp add: cf_lookup_rows_def cf_vars_def regs)

subsection \<open>The forecast loops, pass by pass\<close>

lemma is_forecast_block:
  "is_forecast IS_ROW n d i ws = Some (the (is_forecast IS_ROW n d i []) @ ws)"
  by (simp add: is_forecast_def regs set_cell_def Let_def)

lemma is_forecast_column: "column_loop (is_forecast IS_ROW n d) 5 8"
  by (auto simp add: column_loop_def is_forecast_def regs set_cell_def Let_def layout)

lemma is_forecast_ok:
  "i < 5 \<Longrightarrow> sheet_ok Income_Statement (the (is_forecast IS_ROW 17 32 i []))"
  by (simp add: is_forecast_def regs Let_def layout arows sheet_ok_set_cell sheet_ok_Nil
      edge_ok_def rank_def level_def)

lemma bs_forecast_block:
  "bs_forecast IS_ROW R cl i ws = Some (the (bs_forecast IS_ROW R cl i []) @ ws)"
  by (simp add: bs_forecast_def regs set_cell_def Let_def)

lemma bs_forecast_column: "column_loop (bs_forecast IS_ROW R cl) 5 8"
  by (auto simp add: column_loop_def bs_forecast_def regs set_cell_def Let_def layout)

lemma bs_forecast_ok:
  "i < 5 \<Longrightarrow> sheet_ok Balance_Sheet (the (bs_forecast IS_ROW bs_vars 26 i []))"
  by (simp add: bs_forecast_def bs_vars_def regs Let_def layout arows sheet_ok_set_cell
      sheet_ok_Nil edge_ok_def rank_def level_def)

lemma cf_forecast_block: "cf_forecast R C i ws = cf_forecast R C i [] @ ws"
  by (simp add: cf_forecast_def set_cell_def Let_def)

lemma cf_forecast_column: "column_loop (\<lambda>i ws. Some (cf_forecast R C i ws)) 5 8"
  by (auto simp add: column_loop_def cf_forecast_def set_cell_def Let_def layout)

lemma cf_forecast_ok:
  "i < 5 \<Longrightarrow> sheet_ok Cash_Flow_Statement (the (Some (cf_forecast bs_vars cf_vars i [])))"
  by (simp add: cf_forecast_def bs_vars_def cf_vars_def Let_def layout arows sheet_ok_set_cell
      sheet_ok_Nil edge_ok_def rank_def level_def)

lemma bs_hist_check_eq:
  "bs_hist_check BS_ROW ws =
     Some (((44, 7), Formula (Sub (Loc 7 19) (Loc 7 42))) #
           ((44, 6), Formula (Sub (Loc 6 19) (Loc 6 42))) #
           ((44, 5), Formula (Sub (Loc 5 19) (Loc 5 42))) #
           ((44, 4), Formula (Sub (Loc 4 19) (Loc 4 42))) #
           ((44, 3), Formula (Sub (Loc 3 19) (Loc 3 42))) # ws, 44)"
  by (simp add: bs_hist_check_def regs layout upt_lists set_cell_def)

subsection \<open>The sheets of this program\<close>

lemma income_statement_eq:
  "income_statement n d = Some (blocks (is_forecast IS_ROW n d) 5 @ fst is_declared)"
  unfolding income_statement_def by (rule for_each_blocks) (rule is_forecast_block)

lemma bs_loop:
  "for_each [0..<5] (bs_forecast IS_ROW R cl) ws = Some (blocks (bs_forecast IS_ROW R cl) 5 @ ws)"
  by (rule for_each_blocks) (rule bs_forecast_block)

lemma cf_loop:
  "fold (cf_forecast R C) [0..<5] ws = blocks (\<lambda>i ws. Some (cf_forecast R C i ws)) 5 @ ws"
  by (rule fold_blocks) (rule cf_forecast_block)

lemma balance_sheet_eq:
  "balance_sheet 17 32 cl =
     Some (blocks (bs_forecast IS_ROW bs_vars cl) 5 @
           ((44, 7), Formula (Sub (Loc 7 19) (Loc 7 42))) #
           ((44, 6), Formula (Sub (Loc 6 19) (Loc 6 42))) #
           ((44, 5), Formula (Sub (Loc 5 19) (Loc 5 42))) #
           ((44, 4), Formula (Sub (Loc 4 19) (Loc 4 42))) #
           ((44, 3), Formula (Sub (Loc 3 19) (Loc 3 42))) # fst bs_declared, bs_vars)"
  by (simp add: balance_sheet_def regs assert_equal_def bs_hist_check_eq bs_lookup_rows_eq
      bs_loop)

lemma cash_flow_statement_eq:
  "cash_flow_statement R 26 =
     Some (blocks (\<lambda>i ws. Some (cf_forecast R cf_vars i ws)) 5 @ fst cf_declared)"
  by (simp add: cash_flow_statement_def regs assert_equal_def cf_lookup_rows_eq
      cf_loop)

subsection \<open>The loops of the notes, pass by pass\<close>

lemma note_revenue_block:
  "note_revenue IS_ROW NOTES_ROW i ws = Some (the (note_revenue IS_ROW NOTES_ROW i []) @ ws)"
  by (simp add: note_revenue_def regs set_cell_def Let_def)

lemma note_revenue_column: "column_loop (note_revenue IS_ROW NOTES_ROW) 10 3"
  by (auto simp add: column_loop_def note_revenue_def regs set_cell_def Let_def layout split: if_splits)

lemma note_revenue_ok:
  "i < 10 \<Longrightarrow> sheet_ok Notes (the (note_revenue IS_ROW NOTES_ROW i []))"
  by (simp add: note_revenue_def regs Let_def layout arows sheet_ok_set_cell sheet_ok_Nil
      edge_ok_def rank_def level_def)

lemma note_segments_block:
  "note_segments IS_ROW NOTES_ROW i ws = Some (the (note_segments IS_ROW NOTES_ROW i []) @ ws)"
  by (simp add: note_segments_def regs set_cell_def Let_def)

lemma note_segments_column: "column_loop (note_segments IS_ROW NOTES_ROW) 5 3"
  by (auto simp add: column_loop_def note_segments_def regs set_cell_def Let_def layout split: if_splits)

lemma note_segments_ok:
  "i < 5 \<Longrightarrow> sheet_ok Notes (the (note_segments IS_ROW NOTES_ROW i []))"
  by (simp add: note_segments_def regs Let_def layout arows sheet_ok_set_cell sheet_ok_Nil
      edge_ok_def rank_def level_def)

lemma note_intangibles_block:
  "note_intangibles IS_ROW BS_ROW NOTES_ROW i ws =
     Some (the (note_intangibles IS_ROW BS_ROW NOTES_ROW i []) @ ws)"
  by (simp add: note_intangibles_def regs set_cell_def Let_def)

lemma note_intangibles_column: "column_loop (note_intangibles IS_ROW BS_ROW NOTES_ROW) 10 3"
  by (auto simp add: column_loop_def note_intangibles_def regs set_cell_def Let_def layout split: if_splits)

lemma note_intangibles_ok:
  "i < 10 \<Longrightarrow> sheet_ok Notes (the (note_intangibles IS_ROW BS_ROW NOTES_ROW i []))"
  by (simp add: note_intangibles_def regs Let_def layout arows sheet_ok_set_cell sheet_ok_Nil
      edge_ok_def rank_def level_def)

lemma note_borrowings_block:
  "note_borrowings IS_ROW BS_ROW NOTES_ROW i ws =
     Some (the (note_borrowings IS_ROW BS_ROW NOTES_ROW i []) @ ws)"
  by (simp add: note_borrowings_def regs set_cell_def Let_def)

lemma note_borrowings_column: "column_loop (note_borrowings IS_ROW BS_ROW NOTES_ROW) 10 3"
  by (auto simp add: column_loop_def note_borrowings_def regs set_cell_def Let_def layout split: if_splits)

lemma note_borrowings_ok:
  "i < 10 \<Longrightarrow> sheet_ok Notes (the (note_borrowings IS_ROW BS_ROW NOTES_ROW i []))"
  by (simp add: note_borrowings_def regs Let_def layout arows sheet_ok_set_cell sheet_ok_Nil
      edge_ok_def rank_def level_def)

lemma note_tax_block:
  "note_tax IS_ROW NOTES_ROW i ws = Some (the (note_tax IS_ROW NOTES_ROW i []) @ ws)"
  by (simp add: note_tax_def regs set_cell_def Let_def)

lemma note_tax_column: "column_loop (note_tax IS_ROW NOTES_ROW) 10 3"
  by (auto simp add: column_loop_def note_tax_def regs set_cell_def Let_def layout split: if_splits)

lemma note_tax_ok:
  "i < 10 \<Longrightarrow> sheet_ok Notes (the (note_tax IS_ROW NOTES_ROW i []))"
  by (simp add: note_tax_def regs Let_def layout arows sheet_ok_set_cell sheet_ok_Nil
      edge_ok_def rank_def level_def)

lemma note_dividends_block:
  "note_dividends IS_ROW CF_ROW NOTES_ROW i ws =
     Some (the (note_dividends IS_ROW CF_ROW NOTES_ROW i []) @ ws)"
  by (simp add: note_dividends_def regs set_cell_def Let_def)

lemma note_dividends_column: "column_loop (note_dividends IS_ROW CF_ROW NOTES_ROW) 10 3"
  by (auto simp add: column_loop_def note_dividends_def regs set_cell_def Let_def layout split: if_splits)

lemma note_dividends_ok:
  "i < 10 \<Longrightarrow> sheet_ok Notes (the (note_dividends IS_ROW CF_ROW NOTES_ROW i []))"
  by (simp add: note_dividends_def regs Let_def layout arows sheet_ok_set_cell sheet_ok_Nil
      edge_ok_def rank_def level_def)

lemma note_commitments_block:
  "note_commitments NOTES_ROW i ws = Some (the (note_commitments NOTES_ROW i []) @ ws)"
  by (simp add: note_commitments_def regs set_cell_def Let_def)

lemma note_commitments_column: "column_loop (note_commitments NOTES_ROW) 10 3"
  by (auto simp add: column_loop_def note_commitments_def regs set_cell_def Let_def layout split: if_splits)

lemma note_commitments_ok:
  "i < 10 \<Longrightarrow> sheet_ok Notes (the (note_commitments NOTES_ROW i []))"
  by (simp add: note_commitments_def regs Let_def layout arows sheet_ok_set_cell sheet_ok_Nil
      edge_ok_def rank_def level_def)

lemma notes_loops:
  "for_each [0..<10] (note_revenue IS_ROW NOTES_ROW) ws =
     Some (blocks (note_revenue IS_ROW NOTES_ROW) 10 @ ws)"
  "for_each [0..<5] (note_segments IS_ROW NOTES_ROW) ws =
     Some (blocks (note_segments IS_ROW NOTES_ROW) 5 @ ws)"
  "for_each [0..<10] (note_intangibles IS_ROW BS_ROW NOTES_ROW) ws =
     Some (blocks (note_intangibles IS_ROW BS_ROW NOTES_ROW) 10 @ ws)"
  "for_each [0..<10] (note_borrowings IS_ROW BS_ROW NOTES_ROW) ws =
     Some (blocks (note_borrowings IS_ROW BS_ROW NOTES_ROW) 10 @ ws)"
  "for_each [0..<10] (note_tax IS_ROW NOTES_ROW) ws =
     Some (blocks (note_tax IS_ROW NOTES_ROW) 10 @ ws)"
  "for_each [0..<10] (note_dividends IS_ROW CF_ROW NOTES_ROW) ws =
     Some (blocks (note_dividends IS_ROW CF_ROW NOTES_ROW) 10 @ ws)"
  "for_each [0..<10] (note_commitments NOTES_ROW) ws =
     Some (blocks (note_commitments NOTES_ROW) 10 @ ws)"
  by (rule for_each_blocks, rule note_revenue_block note_segments_block note_intangibles_block
      note_borrowings_block note_tax_block note_dividends_block note_commitments_block)+

lemma notes_sheet_eq:
  "notes_sheet =
     Some (blocks (note_commitments NOTES_ROW) 10 @
           blocks (note_dividends IS_ROW CF_ROW NOTES_ROW) 10 @
           blocks (note_tax IS_ROW NOTES_ROW) 10 @
           blocks (note_borrowings IS_ROW BS_ROW NOTES_ROW) 10 @
           blocks (note_intangibles IS_ROW BS_ROW NOTES_ROW) 10 @
           blocks (note_segments IS_ROW NOTES_ROW) 5 @
           blocks (note_revenue IS_ROW NOTES_ROW) 10 @ fst notes_declared)"
  by (simp add: notes_sheet_def notes_loops)

subsection \<open>The workbook of this program\<close>

lemma generate_model_eq: "generate_model = generate_from 17 32 26"
  by (simp add: generate_model_def precomputed_rows)

lemma model_sheets:
  "model Assumptions = assumptions_sheet"
  "model Income_Statement = blocks (is_forecast IS_ROW 17 32) 5 @ fst is_declared"
  "model Balance_Sheet =
     blocks (bs_forecast IS_ROW bs_vars 26) 5 @
     ((44, 7), Formula (Sub (Loc 7 19) (Loc 7 42))) #
     ((44, 6), Formula (Sub (Loc 6 19) (Loc 6 42))) #
     ((44, 5), Formula (Sub (Loc 5 19) (Loc 5 42))) #
     ((44, 4), Formula (Sub (Loc 4 19) (Loc 4 42))) #
     ((44, 3), Formula (Sub (Loc 3 19) (Loc 3 42))) # fst bs_declared"
  "model Cash_Flow_Statement =
     blocks (\<lambda>i ws. Some (cf_forecast bs_vars cf_vars i ws)) 5 @ fst cf_declared"
  "model Notes =
     blocks (note_commitments NOTES_ROW) 10 @
     blocks (note_dividends IS_ROW CF_ROW NOTES_ROW) 10 @
     blocks (note_tax IS_ROW NOTES_ROW) 10 @
     blocks (note_borrowings IS_ROW BS_ROW NOTES_ROW) 10 @
     blocks (note_intangibles IS_ROW BS_ROW NOTES_ROW) 10 @
     blocks (note_segments IS_ROW NOTES_ROW) 5 @
     blocks (note_revenue IS_ROW NOTES_ROW) 10 @ fst notes_declared"
  by (simp_all add: model_def generate_model_eq generate_from_def income_statement_eq
      balance_sheet_eq cash_flow_statement_eq notes_sheet_eq)

lemma generate_model_ok: "generate_model \<noteq> None"
  by (simp add: generate_model_eq generate_from_def income_statement_eq
      balance_sheet_eq cash_flow_statement_eq notes_sheet_eq)

subsection \<open>Cells of the assumptions sheet\<close>

lemma cell_value_numbers:
  "cell_value (fold (\<lambda>(i, v) ws. set_cell ws r (c0 + i) (Number (f v))) (enumerate_list vs) ws)
     r' c =
   (if r' = r \<and> c0 \<le> c \<and> c < c0 + length vs then Some (Number (f (vs ! (c - c0))))
    else cell_value ws r' c)"
proof (induction vs rule: rev_induct)
  case Nil
  show ?case by (auto simp add: enumerate_list_def)
next
  case (snoc x xs)
  show ?case using snoc.IH
    by (auto simp add: enumerate_list_snoc cell_value_set_cell nth_append)
qed

lemma cell_value_other_row:
  "r' \<noteq> r \<Longrightarrow>
   cell_value (fold (\<lambda>(i, v) ws. set_cell ws r (c0 + i) (g v)) ivs ws) r' c = cell_value ws r' c"
  by (induction ivs arbitrary: ws) (simp_all add: cell_value_set_cell split_def)

lemma cell_value_write_values:
  "cell_value (write_values ws r vals is_pct) r' c =
   (if r' = r \<and> 3 \<le> c \<and> c < 3 + length vals
    then Some (Number (if is_pct then vals ! (c - 3) / 100 else vals ! (c - 3)))
    else cell_value ws r' c)"
  unfolding write_values_def HIST_START_def by (rule cell_value_numbers)

lemma cell_value_input_row:
  "cell_value (input_row ws r l vals is_pct) r' c =
   (if r' = r \<and> 3 \<le> c \<and> c < 3 + length vals
    then Some (Number (if is_pct then vals ! (c - 3) / 100 else vals ! (c - 3)))
    else if r' = r \<and> c = 1 then Some (Text l)
    else cell_value ws r' c)"
  by (simp add: input_row_def cell_value_write_values cell_value_set_cell layout)

lemma cell_value_section_row:
  "cell_value (section_row ws r l) r' c =
   (if r' = r \<and> c = 1 then Some (Text l) else cell_value ws r' c)"
  by (simp add: section_row_def cell_value_set_cell layout)

lemma cell_value_active_row:
  "cell_value (active_row ws a l inp t) r' c =
   (if r' = a \<and> 3 \<le> c \<and> c < 8 then Some (Formula (Loc c inp))
    else if r' = a \<and> 8 \<le> c \<and> c < 13
    then Some (Formula (IfEq (Loc (fst t) (snd t)) ''3yr Avg''
                             (Average (5, inp) (7, inp)) (Loc c inp)))
    else if r' = a \<and> c = 1 then Some (Text l)
    else cell_value ws r' c)"
  by (auto simp add: active_row_def write_active_row_def upt_lists Let_def layout
      cell_value_set_cell)

lemma cell_value_header_row:
  "r' \<noteq> r \<Longrightarrow> cell_value (header_row ws r title) r' c = cell_value ws r' c"
  unfolding header_row_def by (simp add: cell_value_other_row cell_value_set_cell)

lemma cell_value_write_toggles:
  "cell_value (write_toggles ws) r c =
   (if 5 \<le> r \<and> r \<le> 10 \<and> c = 2 then Some (Text ''Forecast'')
    else if 5 \<le> r \<and> r \<le> 10 \<and> c = 1 then Some (Text (the (map_of toggle_items r)))
    else cell_value ws r c)"
  by (auto simp add: write_toggles_def toggle_items_def cell_value_set_cell layout)

lemmas assumptions_cells = assumptions_sheet_def assumptions_rows_1_def assumptions_rows_2_def
  Let_def cell_value_input_row cell_value_section_row cell_value_active_row
  cell_value_header_row cell_value_write_toggles cell_value_set_cell cell_value_Nil

text \<open>The six active rows, with their input rows and toggles, at any period.\<close>

lemma active_cells_hist:
  assumes "(a, inp, t) \<in> set [(16, 15, 5), (18, 17, 6), (22, 21, 7), (29, 28, 8), (35, 34, 9),
                               (37, 36, 10)]"
    and "3 \<le> c" and "c < 8"
  shows "cell_value assumptions_sheet a c = Some (Formula (Loc c inp))"
  using assms by (auto simp add: assumptions_cells)

lemma active_cells_forecast:
  assumes "(a, inp, t) \<in> set [(16, 15, 5), (18, 17, 6), (22, 21, 7), (29, 28, 8), (35, 34, 9),
                               (37, 36, 10)]"
    and "8 \<le> c" and "c < 13"
  shows "cell_value assumptions_sheet a c =
     Some (Formula (IfEq (Loc 2 t) ''3yr Avg'' (Average (5, inp) (7, inp)) (Loc c inp)))"
  using assms by (auto simp add: assumptions_cells)

lemma sheet_ok_input_row: "sheet_ok s (input_row ws r l vals is_pct) = sheet_ok s ws"
  by (simp add: input_row_def sheet_ok_write_values sheet_ok_set_cell)

lemma sheet_ok_section_row: "sheet_ok s (section_row ws r l) = sheet_ok s ws"
  by (simp add: section_row_def sheet_ok_set_cell)

lemma sheet_ok_write_toggles: "sheet_ok s (write_toggles ws) = sheet_ok s ws"
  by (simp add: write_toggles_def toggle_items_def sheet_ok_set_cell)

lemma sheet_ok_active_row:
  assumes "level Assumptions a = 1" and "level Assumptions inp = 0" and "level Assumptions t = 0"
  shows "sheet_ok Assumptions (active_row ws a l inp (2, t)) = sheet_ok Assumptions ws"
  using assms
  by (simp add: active_row_def write_active_row_def upt_lists Let_def layout sheet_ok_set_cell
      edge_ok_def rank_def range_cells_def)

lemma sheet_ok_assumptions: "sheet_ok Assumptions assumptions_sheet"
  by (simp add: assumptions_sheet_def assumptions_rows_1_def assumptions_rows_2_def Let_def
      sheet_ok_input_row sheet_ok_section_row sheet_ok_active_row sheet_ok_header_row
      sheet_ok_write_toggles sheet_ok_set_cell sheet_ok_Nil level_def)

subsection \<open>Cells of the workbook\<close>

lemma cell_value_Cons:
  "cell_value (((r, c), v) # ws) r' c' =
     (if r' = r \<and> c' = c then Some v else cell_value ws r' c')"
  by (simp add: cell_value_def)

lemma content_at_assumptions:
  "content_at model (Assumptions, c, r) = cell_value assumptions_sheet r c"
  by (simp add: content_at_def model_sheets)

lemma content_at_income_statement:
  "content_at model (Income_Statement, c, r) =
     (if 8 \<le> c \<and> c < 8 + 5
      then (case cell_value (the (is_forecast IS_ROW 17 32 (c - 8) [])) r c of
              Some v \<Rightarrow> Some v | None \<Rightarrow> cell_value (fst is_declared) r c)
      else cell_value (fst is_declared) r c)"
  unfolding content_at_def model_sheets prod.case
  by (rule cell_value_column_loop) (rule is_forecast_column)

lemma content_at_balance_sheet:
  "content_at model (Balance_Sheet, c, r) =
     (if 8 \<le> c \<and> c < 8 + 5
      then (case cell_value (the (bs_forecast IS_ROW bs_vars 26 (c - 8) [])) r c of
              Some v \<Rightarrow> Some v | None \<Rightarrow> cell_value (fst bs_declared) r c)
      else if r = 44 \<and> 3 \<le> c \<and> c < 8 then Some (Formula (Sub (Loc c 19) (Loc c 42)))
      else cell_value (fst bs_declared) r c)"
proof -
  have "cell_value (model Balance_Sheet) r c =
     (if 8 \<le> c \<and> c < 8 + 5
      then (case cell_value (the (bs_forecast IS_ROW bs_vars 26 (c - 8) [])) r c of
              Some v \<Rightarrow> Some v
            | None \<Rightarrow> cell_value (((44, 7), Formula (Sub (Loc 7 19) (Loc 7 42))) #
           ((44, 6), Formula (Sub (Loc 6 19) (Loc 6 42))) #
           ((44, 5), Formula (Sub (Loc 5 19) (Loc 5 42))) #
           ((44, 4), Formula (Sub (Loc 4 19) (Loc 4 42))) #
           ((44, 3), Formula (Sub (Loc 3 19) (Loc 3 42))) # fst bs_declared) r c)
      else cell_value (((44, 7), Formula (Sub (Loc 7 19) (Loc 7 42))) #
           ((44, 6), Formula (Sub (Loc 6 19) (Loc 6 42))) #
           ((44, 5), Formula (Sub (Loc 5 19) (Loc 5 42))) #
           ((44, 4), Formula (Sub (Loc 4 19) (Loc 4 42))) #
           ((44, 3), Formula (Sub (Loc 3 19) (Loc 3 42))) # fst bs_declared) r c)"
    unfolding model_sheets by (rule cell_value_column_loop) (rule bs_forecast_column)
  then show ?thesis
    by (auto simp add: content_at_def cell_value_Cons split: option.splits)
qed

lemma content_at_cash_flow:
  "content_at model (Cash_Flow_Statement, c, r) =
     (if 8 \<le> c \<and> c < 8 + 5
      then (case cell_value (the (Some (cf_forecast bs_vars cf_vars (c - 8) []))) r c of
              Some v \<Rightarrow> Some v | None \<Rightarrow> cell_value (fst cf_declared) r c)
      else cell_value (fst cf_declared) r c)"
  unfolding content_at_def model_sheets prod.case
  by (rule cell_value_column_loop) (rule cf_forecast_column)

lemmas notes_blocks =
  cell_value_column_loop[OF note_commitments_column]
  cell_value_column_loop[OF note_dividends_column]
  cell_value_column_loop[OF note_tax_column]
  cell_value_column_loop[OF note_borrowings_column]
  cell_value_column_loop[OF note_intangibles_column]
  cell_value_column_loop[OF note_segments_column]
  cell_value_column_loop[OF note_revenue_column]

lemma content_at_notes:
  "content_at model (Notes, c, r) = cell_value (model Notes) r c"
  by (simp add: content_at_def)

lemma eval_cell_numeral:
  "eval_cell (numeral k) wb a =
     cell_result (eval_cell (pred_numeral k) wb) (fst a) (content_at wb a)"
  by (simp add: numeral_eq_Suc)

subsection \<open>Literal cells of the declarations\<close>

lemma is_declared_cells:
  "map (\<lambda>(r, c). cell_value (fst is_declared) r c) [(6, 7), (7, 7), (16, 3), (17, 3)]
     = [Some (Number 3990), Some (Number 360), Some (Number 1801), Some (Number (- 856))]"
  by code_simp

lemma bs_declared_cells:
  "map (\<lambda>(r, c). cell_value (fst bs_declared) r c)
     [(7, 7), (8, 7), (9, 7), (13, 7), (14, 7), (15, 7), (16, 7), (17, 7), (23, 7), (25, 7),
      (30, 7), (32, 7), (37, 7), (38, 7), (39, 7), (14, 3)]
     = map (\<lambda>x. Some (Number x))
         [2520, 286, 240, 8050, 24800, 1580, 1620, 36050, 550, 740,
          2780, 25030, 15310, - 5726, 412, 22450]"
  by code_simp

lemma cf_declared_cells:
  "map (\<lambda>(r, c). cell_value (fst cf_declared) r c) [(9, 7), (14, 7)]
     = [Some (Number 170), Some (Number (- 90))]"
  by code_simp

lemma notes_declared_cells:
  "map (\<lambda>(r, c). cell_value (fst notes_declared) r c)
     [(13, 3), (14, 3), (16, 3), (17, 3), (19, 3), (20, 3), (22, 3), (23, 3), (29, 3), (30, 3)]
     = map (\<lambda>x. Some (Number x)) [820, 620, 1050, 750, 430, 310, 478, 120, 22100, 530]"
  by code_simp

lemmas declared_cells = is_declared_cells[simplified] bs_declared_cells[simplified]
  cf_declared_cells[simplified] notes_declared_cells[simplified]

subsection \<open>Recalculation\<close>

lemma those_mono:
  assumes "those (map f xs) = Some vs" and "\<And>x v. f x = Some v \<Longrightarrow> g x = Some v"
  shows "those (map g xs) = Some vs"
  using assms
proof (induction xs arbitrary: vs)
  case Nil
  then show ?case by simp
next
  case (Cons x xs)
  from Cons.prems(1) obtain v ws where fx: "f x = Some v" and rest: "those (map f xs) = Some ws"
    and vs: "vs = v # ws"
    by (auto split: option.splits)
  have "g x = Some v" using fx Cons.prems(2) by simp
  moreover have "those (map g xs) = Some ws" using Cons.IH[OF rest] Cons.prems(2) by simp
  ultimately show ?case using vs by simp
qed

lemma eval_expr_mono:
  assumes "\<And>a v. env a = Some v \<Longrightarrow> env' a = Some v"
  shows "eval_expr env s e = Some v \<Longrightarrow> eval_expr env' s e = Some v"
proof (induction e arbitrary: v)
  case (Average p q)
  then obtain vs where vs: "those (map (\<lambda>(c, r). env (s, c, r)) (range_cells p q)) = Some vs"
    by (auto split: Option.bind_splits)
  have "those (map (\<lambda>(c, r). env' (s, c, r)) (range_cells p q)) = Some vs"
    by (rule those_mono[OF vs]) (auto dest: assms)
  with vs Average show ?case by simp
qed (auto dest: assms split: Option.bind_splits if_splits)

lemma cell_result_mono:
  assumes "\<And>a v. env a = Some v \<Longrightarrow> env' a = Some v"
    and "cell_result env s c = Some v"
  shows "cell_result env' s c = Some v"
  using assms(2) eval_expr_mono[of env env', OF assms(1)]
  by (auto simp add: cell_result_def split: option.splits content.splits)

lemma eval_cell_Suc: "eval_cell n wb a = Some v \<Longrightarrow> eval_cell (Suc n) wb a = Some v"
proof (induction n arbitrary: a v)
  case 0
  then show ?case by simp
next
  case (Suc n)
  have "cell_result (eval_cell n wb) (fst a) (content_at wb a) = Some v"
    using Suc.prems by simp
  then have "cell_result (eval_cell (Suc n) wb) (fst a) (content_at wb a) = Some v"
    by (rule cell_result_mono[rotated]) (rule Suc.IH)
  then show ?case by simp
qed

lemma eval_cell_mono: "n \<le> m \<Longrightarrow> eval_cell n wb a = Some v \<Longrightarrow> eval_cell m wb a = Some v"
proof (induction m)
  case 0
  then show ?case by simp
next
  case (Suc m)
  show ?case
  proof (cases "n = Suc m")
    case True
    then show ?thesis using Suc.prems by simp
  next
    case False
    then have "eval_cell m wb a = Some v" using Suc by simp
    then show ?thesis by (rule eval_cell_Suc)
  qed
qed

text \<open>A certificate gives the values that recalculation finds.\<close>

lemma certified_eval:
  "certified wb tbl \<Longrightarrow> map_of tbl a = Some v \<Longrightarrow> eval_cell (length tbl) wb a = Some v"
proof (induction tbl arbitrary: a v)
  case Nil
  then show ?case by simp
next
  case (Cons p tbl)
  obtain b w where p: "p = (b, w)" by (cases p)
  have cert: "certified wb tbl"
    and res: "cell_result (map_of tbl) (fst b) (content_at wb b) = Some w"
    using Cons.prems(1) by (simp_all add: p)
  show ?case
  proof (cases "a = b")
    case True
    then have "v = w" using Cons.prems(2) by (simp add: p)
    moreover have "cell_result (eval_cell (length tbl) wb) (fst b) (content_at wb b) = Some w"
      by (rule cell_result_mono[OF _ res]) (rule Cons.IH[OF cert])
    ultimately show ?thesis using True by simp
  next
    case False
    then have "map_of tbl a = Some v" using Cons.prems(2) by (simp add: p)
    then have "eval_cell (length tbl) wb a = Some v" by (rule Cons.IH[OF cert])
    then show ?thesis by (simp add: eval_cell_Suc del: eval_cell.simps)
  qed
qed

subsection \<open>The first forecast period under the toggles of the script\<close>

lemma assumptions_fy26_inputs:
  "map (\<lambda>r. cell_value assumptions_sheet r 8)
     [15, 17, 21, 24, 25, 28, 30, 31, 34, 36, 39, 40, 43, 44, 45, 46, 47, 48, 49, 50, 53, 54,
      55, 56, 57]
   = map (\<lambda>x. Some (Number x))
       [11 / 200, 3 / 100, 61 / 200, 1 / 4, 33 / 100, 7 / 250, 2 / 5, 3 / 5, 47 / 1000, 3 / 20,
        1 / 20, 1 / 100, 1300, 24, 48, 3 / 100, - (1 / 50), 1 / 50, 3 / 100, 1 / 50, 68, 2000,
        400, 1 / 50, 1 / 100]"
  by (simp add: assumptions_cells)

lemma assumptions_toggles:
  "map (\<lambda>r. cell_value assumptions_sheet r 2) [5, 6, 7, 8, 9, 10]
   = map (\<lambda>r. Some (Text ''Forecast'')) [5, 6, 7, 8, 9, 10 :: nat]"
  by (simp add: assumptions_cells)

lemma assumptions_fy26_active:
  "map (\<lambda>(a, inp, t). cell_value assumptions_sheet a 8)
     [(16, 15, 5), (18, 17, 6), (22, 21, 7), (29, 28, 8), (35, 34, 9), (37, 36, 10)]
   = map (\<lambda>(a, inp, t). Some (Formula (IfEq (Loc 2 t) ''3yr Avg''
                                          (Average (5, inp) (7, inp)) (Loc 8 inp))))
       [(16, 15, 5), (18, 17, 6), (22, 21, 7), (29, 28, 8), (35, 34, 9), (37, 36, 10)]"
  by (simp add: assumptions_cells)

lemmas fy26_cells = assumptions_fy26_inputs[simplified] assumptions_toggles[simplified]
  assumptions_fy26_active[simplified] declared_cells

subsection \<open>Valuations and plain arithmetic\<close>

lemma num_of_num: "num_of v = Some x \<Longrightarrow> num v = x"
  by (cases v) simp_all

lemma num_shown: "num (shown v) = num v"
  by (cases v) simp_all

lemma eval_expr_num:
  "arith e \<Longrightarrow> eval_expr (\<lambda>b. Some (\<rho> b)) s e = Some v \<Longrightarrow> num v = num_expr \<rho> s e"
proof (induction e arbitrary: v)
  case (Div e1 e2)
  then show ?case
    by (auto split: Option.bind_splits if_splits dest!: num_of_num)
qed (auto split: Option.bind_splits dest!: num_of_num)

lemma agrees_num:
  assumes "content_at wb a = Some (Formula e)" and "arith e" and "agrees wb \<rho> a"
  shows "num (\<rho> a) = num_expr \<rho> (fst a) e"
proof -
  from assms(1,3) obtain v where v: "eval_expr (\<lambda>b. Some (\<rho> b)) (fst a) e = Some v"
    and a: "\<rho> a = shown v"
    by (auto simp add: agrees_def cell_result_def)
  show ?thesis using eval_expr_num[OF assms(2) v] by (simp add: a num_shown)
qed

subsection \<open>The forecast formulas of the income statement\<close>

lemma is_formulas:
  assumes "i < 5"
  shows "content_at model (Income_Statement, 8 + i, 6) =
           Some (Formula (Mul (Loc (7 + i) 6) (Add (Num 1) (Ext Assumptions (8 + i) 16))))"
    and "content_at model (Income_Statement, 8 + i, 11) =
           Some (Formula (Mul (Mul (Neg (Loc (8 + i) 8)) (Ext Assumptions (8 + i) 22))
                              (Ext Assumptions (8 + i) 24)))"
    and "content_at model (Income_Statement, 8 + i, 12) =
           Some (Formula (Mul (Mul (Neg (Loc (8 + i) 8)) (Ext Assumptions (8 + i) 22))
                              (Ext Assumptions (8 + i) 25)))"
    and "content_at model (Income_Statement, 8 + i, 13) =
           Some (Formula (Sub (Sub (Mul (Neg (Loc (8 + i) 8)) (Ext Assumptions (8 + i) 22))
                                   (Loc (8 + i) 11))
                              (Loc (8 + i) 12)))"
    and "content_at model (Income_Statement, 8 + i, 14) =
           Some (Formula (Add (Add (Loc (8 + i) 11) (Loc (8 + i) 12)) (Loc (8 + i) 13)))"
    and "content_at model (Income_Statement, 8 + i, 17) =
           Some (Formula (Mul (Neg (Ext Balance_Sheet (7 + i) 17)) (Ext Assumptions (8 + i) 29)))"
    and "content_at model (Income_Statement, 8 + i, 20) =
           Some (Formula (Mul (Neg (Ext Balance_Sheet (7 + i) 32)) (Ext Assumptions (8 + i) 35)))"
  using assms
  by (simp_all add: content_at_income_statement is_forecast_def regs layout arows Let_def
      cell_value_set_cell cell_value_Nil)

lemma assumption_labels:
  "content_at model (Assumptions, LABEL_COL, 22) = Some (Text ''Opex as % of revenue (active)'')"
  "content_at model (Assumptions, LABEL_COL, 24) = Some (Text ''Employee costs share of total opex'')"
  "content_at model (Assumptions, LABEL_COL, 25) = Some (Text ''Road ops share of total opex'')"
  "content_at model (Assumptions, LABEL_COL, 29) = Some (Text ''D&A as % of NCA (active)'')"
  "content_at model (Assumptions, LABEL_COL, 35) = Some (Text ''Average cost of debt (active)'')"
  by (simp_all add: content_at_assumptions assumptions_cells layout)

section \<open>The claims\<close>

text \<open>
  C7.  For every forecast period \<open>p\<close> (column \<open>8 + i\<close>), the cell of the income statement
  row registered as Depreciation & amortisation holds the formula
  \<^verbatim>\<open>=-'Balance Sheet'!{p-1}{Total Non-Current Assets}*Assumptions!{p}{29}\<close>, row 29 being
  the active D&A% driver, and the cell of Net finance costs holds
  \<^verbatim>\<open>=-'Balance Sheet'!{p-1}{Total Borrowings}*Assumptions!{p}{35}\<close>, row 35 being the
  active cost-of-debt driver.  Both refer to the balance sheet of the prior period only, and
  in any recalculated workbook the two values are minus the prior closing balance times the
  driver of the period.
\<close>

theorem lagged_drivers:
  "IS_ROW ''Depreciation & amortisation'' = Some 17 \<and>
   IS_ROW ''Net finance costs'' = Some 20 \<and>
   BS_ROW ''Total Non-Current Assets'' = Some 17 \<and>
   BS_ROW ''Total Borrowings (current + non-current)'' = Some 32 \<and>
   content_at model (Assumptions, LABEL_COL, AROW_DA_PCT) = Some (Text ''D&A as % of NCA (active)'') \<and>
   content_at model (Assumptions, LABEL_COL, AROW_COD) = Some (Text ''Average cost of debt (active)'') \<and>
   (\<forall>i<5.
      content_at model (Income_Statement, 8 + i, 17) =
        Some (Formula (Mul (Neg (Ext Balance_Sheet (7 + i) 17))
                           (Ext Assumptions (8 + i) AROW_DA_PCT))) \<and>
      content_at model (Income_Statement, 8 + i, 20) =
        Some (Formula (Mul (Neg (Ext Balance_Sheet (7 + i) 32))
                           (Ext Assumptions (8 + i) AROW_COD))) \<and>
      (\<forall>\<rho>. agrees model \<rho> (Income_Statement, 8 + i, 17) \<longrightarrow>
           num (\<rho> (Income_Statement, 8 + i, 17)) =
             - num (\<rho> (Balance_Sheet, 7 + i, 17)) * num (\<rho> (Assumptions, 8 + i, AROW_DA_PCT))) \<and>
      (\<forall>\<rho>. agrees model \<rho> (Income_Statement, 8 + i, 20) \<longrightarrow>
           num (\<rho> (Income_Statement, 8 + i, 20)) =
             - num (\<rho> (Balance_Sheet, 7 + i, 32)) * num (\<rho> (Assumptions, 8 + i, AROW_COD))))"
proof -
  have sem: "num (\<rho> (Income_Statement, 8 + i, 17)) =
        - num (\<rho> (Balance_Sheet, 7 + i, 17)) * num (\<rho> (Assumptions, 8 + i, 29))"
    if "i < 5" and "agrees model \<rho> (Income_Statement, 8 + i, 17)" for i \<rho>
    using agrees_num[OF is_formulas(6)[OF that(1)] _ that(2)] by simp
  have sem': "num (\<rho> (Income_Statement, 8 + i, 20)) =
        - num (\<rho> (Balance_Sheet, 7 + i, 32)) * num (\<rho> (Assumptions, 8 + i, 35))"
    if "i < 5" and "agrees model \<rho> (Income_Statement, 8 + i, 20)" for i \<rho>
    using agrees_num[OF is_formulas(7)[OF that(1)] _ that(2)] by simp
  show ?thesis
    by (simp add: regs arows assumption_labels is_formulas sem sem')
qed

theorem lagged_drivers_witness:
  "content_at model (Income_Statement, 8, 17) =
     Some (Formula (Mul (Neg (Ext Balance_Sheet 7 17)) (Ext Assumptions 8 29))) \<and>
   content_at model (Income_Statement, 8, 20) =
     Some (Formula (Mul (Neg (Ext Balance_Sheet 7 32)) (Ext Assumptions 8 35))) \<and>
   agrees model fy26_valuation (Income_Statement, 8, 17) \<and>
   fy26_valuation (Income_Statement, 8, 17) = N (- 36050 * (7 / 250)) \<and>
   fy26_valuation (Balance_Sheet, 7, 17) = N 36050 \<and>
   fy26_valuation (Assumptions, 8, 29) = N (7 / 250)"
proof -
  have a: "agrees model fy26_valuation (Income_Statement, 8, 17)"
    using is_formulas(6)[of 0]
    by (simp add: agrees_def cell_result_def fy26_valuation_def fy26_values_def)
  have "(0::nat) < 5" by simp
  with lagged_drivers a show ?thesis
    using is_formulas(6,7)[of 0]
    by (simp add: fy26_valuation_def fy26_values_def)
qed

text \<open>
  C8.  For every forecast period, Corporate & admin costs is the plug
  \<open>-(Total Revenue \<times> active opex%) - Employee costs - Road operating costs\<close>, so that Total
  Operating Expenses, the sum of the three cost lines, equals
  \<open>-(Total Revenue \<times> active opex%)\<close>, whatever the two share drivers and all other cells
  are: the valuation is only required to agree with the two formula cells involved.
\<close>

theorem opex_plug:
  assumes "i < 5"
    and "agrees model \<rho> (Income_Statement, 8 + i, 13)"
    and "agrees model \<rho> (Income_Statement, 8 + i, 14)"
  shows "IS_ROW ''Total Revenue'' = Some 8 \<and>
         IS_ROW ''Employee costs'' = Some 11 \<and>
         IS_ROW ''Road operating costs'' = Some 12 \<and>
         IS_ROW ''Corporate & admin costs'' = Some 13 \<and>
         IS_ROW ''Total Operating Expenses'' = Some 14 \<and>
         content_at model (Assumptions, LABEL_COL, AROW_OPEX_PCT) =
           Some (Text ''Opex as % of revenue (active)'') \<and>
         num (\<rho> (Income_Statement, 8 + i, 13)) =
           - (num (\<rho> (Income_Statement, 8 + i, 8)) * num (\<rho> (Assumptions, 8 + i, AROW_OPEX_PCT)))
           - num (\<rho> (Income_Statement, 8 + i, 11)) - num (\<rho> (Income_Statement, 8 + i, 12)) \<and>
         num (\<rho> (Income_Statement, 8 + i, 14)) =
           num (\<rho> (Income_Statement, 8 + i, 11)) + num (\<rho> (Income_Statement, 8 + i, 12))
           + num (\<rho> (Income_Statement, 8 + i, 13)) \<and>
         num (\<rho> (Income_Statement, 8 + i, 14)) =
           - (num (\<rho> (Income_Statement, 8 + i, 8)) * num (\<rho> (Assumptions, 8 + i, AROW_OPEX_PCT)))"
proof -
  have 1: "num (\<rho> (Income_Statement, 8 + i, 13)) =
        - num (\<rho> (Income_Statement, 8 + i, 8)) * num (\<rho> (Assumptions, 8 + i, 22))
        - num (\<rho> (Income_Statement, 8 + i, 11)) - num (\<rho> (Income_Statement, 8 + i, 12))"
    using agrees_num[OF is_formulas(4)[OF assms(1)] _ assms(2)] by simp
  have 2: "num (\<rho> (Income_Statement, 8 + i, 14)) =
        num (\<rho> (Income_Statement, 8 + i, 11)) + num (\<rho> (Income_Statement, 8 + i, 12))
        + num (\<rho> (Income_Statement, 8 + i, 13))"
    using agrees_num[OF is_formulas(5)[OF assms(1)] _ assms(3)] by simp
  show ?thesis using 1 2 by (simp add: regs arows assumption_labels)
qed

text \<open>
  A valuation of the cells with revenue 1000, opex 30%, employee costs -75 and road
  operating costs -99.
\<close>

theorem opex_plug_witness:
  "agrees model
     ((\<lambda>a. N 0)((Income_Statement, 8, 8) := N 1000, (Assumptions, 8, 22) := N (3 / 10),
                 (Income_Statement, 8, 11) := N (- 75), (Income_Statement, 8, 12) := N (- 99),
                 (Income_Statement, 8, 13) := N (- 126), (Income_Statement, 8, 14) := N (- 300)))
     (Income_Statement, 8, 13) \<and>
   agrees model
     ((\<lambda>a. N 0)((Income_Statement, 8, 8) := N 1000, (Assumptions, 8, 22) := N (3 / 10),
                 (Income_Statement, 8, 11) := N (- 75), (Income_Statement, 8, 12) := N (- 99),
                 (Income_Statement, 8, 13) := N (- 126), (Income_Statement, 8, 14) := N (- 300)))
     (Income_Statement, 8, 14) \<and>
   IS_ROW ''Total Operating Expenses'' = Some 14 \<and>
   (- 300 :: real) = - (1000 * (3 / 10))"
proof -
  let ?\<rho> = "(\<lambda>a::addr. N 0)
                ((Income_Statement, 8, 8) := N 1000, (Assumptions, 8, 22) := N (3 / 10),
                 (Income_Statement, 8, 11) := N (- 75), (Income_Statement, 8, 12) := N (- 99),
                 (Income_Statement, 8, 13) := N (- 126), (Income_Statement, 8, 14) := N (- 300))"
  have a: "agrees model ?\<rho> (Income_Statement, 8 + 0, 13)"
    using is_formulas(4)[of 0] by (simp add: agrees_def cell_result_def)
  have b: "agrees model ?\<rho> (Income_Statement, 8 + 0, 14)"
    using is_formulas(5)[of 0] by (simp add: agrees_def cell_result_def)
  have "(0::nat) < 5" by simp
  from opex_plug[OF this a b] a b show ?thesis by (simp add: arows)
qed

end
